theory Spec2Isabelle
  imports Complex_Main
begin

section \<open>Python values and built-ins used by \<open>gather_info\<close>\<close>

text \<open>
  The development embeds \<open>gather_info\<close> of \<open>process_dicom.py\<close>: the function that reads
  the files of one series and builds the one-row record of that series.

  A value is what the reader (pydicom) delivers for an element, or what the program
  computes from it: \<open>None\<close>, an integer, a float, a text, a byte string, a
  \<open>MultiValue\<close> (an element of a text representation with several values), a Python
  list (an element of a binary number representation with several values) or a tuple.
  A \<open>MultiValue\<close> is a sequence of its own: it is neither a \<open>list\<close> nor a \<open>tuple\<close>
  and it is not hashable. The integers and floats of the reader (\<open>IS\<close>, \<open>DSfloat\<close>)
  are subclasses of \<open>int\<close> and \<open>float\<close> and compute as these do.

  A float is a binary64 number: finite (the rational it denotes), the negative zero, an
  infinity or a NaN. Where the program makes a float, the rounding is written out:
  \<open>binary64\<close>. An exception is the value \<open>None\<close> of an \<open>option\<close>. Texts are
  \<open>string\<close>, one \<open>char\<close> per character (Latin-1).
\<close>

datatype pyfloat =
    Finite rat
  | NegZero
  | PosInf
  | NegInf
  | NaN

datatype pyval =
    PNone
  | PInt int
  | PFloat pyfloat
  | PStr string
  | PBytes string
  | PMulti "pyval list"
  | PList "pyval list"
  | PTuple "pyval list"

subsection \<open>Characters and texts\<close>

definition py_isspace :: "char \<Rightarrow> bool" where
  \<comment> \<open>\<open>str.isspace\<close>, the white space of \<open>str.split\<close> and \<open>str.strip\<close> and the
      class \<open>\s\<close> of \<open>re\<close>, on Latin-1 characters\<close>
  "py_isspace c \<longleftrightarrow> c \<in> set [CHR 0x09, CHR 0x0A, CHR 0x0B, CHR 0x0C, CHR 0x0D,
      CHR 0x1C, CHR 0x1D, CHR 0x1E, CHR 0x1F, CHR 0x20, CHR 0x85, CHR 0xA0]"

definition ascii_space :: "char \<Rightarrow> bool" where
  \<comment> \<open>the white space that \<open>int\<close> and \<open>float\<close> skip around a numeral in a byte
      string\<close>
  "ascii_space c \<longleftrightarrow> c \<in> set [CHR 0x09, CHR 0x0A, CHR 0x0B, CHR 0x0C, CHR 0x0D, CHR 0x20]"

definition numeral_space :: "char \<Rightarrow> bool" where
  \<comment> \<open>the white space that \<open>int\<close> and \<open>float\<close> skip around a numeral in a text: the
      ASCII white space, and the white space beyond ASCII, which they first turn into
      blanks. The separators \<open>0x1C\<close> to \<open>0x1F\<close> are not skipped.\<close>
  "numeral_space c \<longleftrightarrow> ascii_space c \<or> c = CHR 0x85 \<or> c = CHR 0xA0"

definition digit_val :: "char \<Rightarrow> int option" where
  "digit_val c = map_of [(CHR ''0'', 0), (CHR ''1'', 1), (CHR ''2'', 2), (CHR ''3'', 3),
      (CHR ''4'', 4), (CHR ''5'', 5), (CHR ''6'', 6), (CHR ''7'', 7), (CHR ''8'', 8),
      (CHR ''9'', 9)] c"

definition is_digit :: "char \<Rightarrow> bool" where
  "is_digit c \<longleftrightarrow> digit_val c \<noteq> None"

definition to_upper :: "char \<Rightarrow> char" where
  "to_upper c = (case map_of (zip ''abcdefghijklmnopqrstuvwxyz'' ''ABCDEFGHIJKLMNOPQRSTUVWXYZ'') c of
      Some u \<Rightarrow> u | None \<Rightarrow> c)"

definition to_lower :: "char \<Rightarrow> char" where
  "to_lower c = (case map_of (zip ''ABCDEFGHIJKLMNOPQRSTUVWXYZ'' ''abcdefghijklmnopqrstuvwxyz'') c of
      Some l \<Rightarrow> l | None \<Rightarrow> c)"

definition py_upper :: "string \<Rightarrow> string" where
  \<comment> \<open>\<open>s.upper()\<close> as far as the letters of ASCII go; the program only looks for a word
      of ASCII letters in the result, and no other character becomes such a letter\<close>
  "py_upper s = map to_upper s"

definition py_lower :: "string \<Rightarrow> string" where
  \<comment> \<open>\<open>s.lower()\<close>, likewise\<close>
  "py_lower s = map to_lower s"

fun starts_with :: "string \<Rightarrow> string \<Rightarrow> bool" where
  \<comment> \<open>\<open>starts_with p s\<close> is \<open>s.startswith(p)\<close>\<close>
  "starts_with [] s = True"
| "starts_with (p # ps) [] = False"
| "starts_with (p # ps) (c # cs) = (p = c \<and> starts_with ps cs)"

fun py_in :: "string \<Rightarrow> string \<Rightarrow> bool" where
  \<comment> \<open>\<open>py_in sub s\<close> is \<open>sub in s\<close> on texts\<close>
  "py_in sub [] = (sub = [])"
| "py_in sub (c # cs) = (starts_with sub (c # cs) \<or> py_in sub cs)"

definition strip_with :: "(char \<Rightarrow> bool) \<Rightarrow> string \<Rightarrow> string" where
  "strip_with sp s = rev (dropWhile sp (rev (dropWhile sp s)))"

definition py_strip :: "string \<Rightarrow> string" where
  \<comment> \<open>\<open>s.strip()\<close>\<close>
  "py_strip s = strip_with py_isspace s"

fun split_on :: "char \<Rightarrow> string \<Rightarrow> string list" where
  \<comment> \<open>\<open>s.split(sep)\<close> for a separator of one character: empty parts are kept\<close>
  "split_on sep [] = [[]]"
| "split_on sep (c # cs) =
     (if c = sep then [] # split_on sep cs
      else (case split_on sep cs of [] \<Rightarrow> [[c]] | p # ps \<Rightarrow> (c # p) # ps))"

fun split_ws :: "string \<Rightarrow> string list" where
  \<comment> \<open>\<open>s.split()\<close>: the maximal runs of characters that are not white space\<close>
  "split_ws [] = []"
| "split_ws (c # cs) =
     (if py_isspace c then split_ws cs
      else (case cs of
              [] \<Rightarrow> [[c]]
            | d # ds \<Rightarrow>
                if py_isspace d then [c] # split_ws cs
                else (case split_ws cs of [] \<Rightarrow> [[c]] | p # ps \<Rightarrow> (c # p) # ps)))"

subsection \<open>Rounding to binary64\<close>

definition round_half_even :: "rat \<Rightarrow> int" where
  "round_half_even x =
     (let f = \<lfloor>x\<rfloor>; r = x - of_int f
      in if r < 1 / 2 then f else if r > 1 / 2 then f + 1 else if even f then f else f + 1)"

function ilog2 :: "int \<Rightarrow> int" where
  "ilog2 n = (if n < 2 then 0 else 1 + ilog2 (n div 2))"
  by pat_completeness auto

termination
  by (relation "measure nat") auto

declare ilog2.simps [simp del]

definition pow2 :: "int \<Rightarrow> rat" where
  "pow2 e = (if e \<ge> 0 then 2 ^ nat e else 1 / 2 ^ nat (- e))"

definition binary_exponent :: "rat \<Rightarrow> int" where
  \<comment> \<open>for \<open>a > 0\<close> the exponent \<open>e\<close> with \<open>2 ^ e \<le> a < 2 ^ (e + 1)\<close>\<close>
  "binary_exponent a =
     (if a \<ge> 1 then ilog2 \<lfloor>a\<rfloor>
      else (let c = \<lceil>1 / a\<rceil> in if c \<le> 1 then 0 else - (1 + ilog2 (c - 1))))"

definition nearest_multiple :: "rat \<Rightarrow> rat \<Rightarrow> rat" where
  \<comment> \<open>the multiple of \<open>ulp\<close> nearest to \<open>a\<close>, ties to the even multiple\<close>
  "nearest_multiple ulp a = of_int (round_half_even (a / ulp)) * ulp"

definition fl53 :: "rat \<Rightarrow> rat" where
  \<comment> \<open>the binary64 float nearest to \<open>x\<close>, ties to even (53 significant bits), for the
      quotients and products of the sampling positions, which stay within the exponent
      range of binary64\<close>
  "fl53 x =
     (if x = 0 then 0
      else (let a = \<bar>x\<bar>; r = nearest_multiple (pow2 (binary_exponent a - 52)) a
            in if x > 0 then r else - r))"

definition signed_float :: "bool \<Rightarrow> rat \<Rightarrow> pyfloat" where
  \<comment> \<open>the float of a sign and a magnitude that is a binary64 number\<close>
  "signed_float neg r =
     (if r = 0 then (if neg then NegZero else Finite 0) else Finite (if neg then - r else r))"

definition binary64 :: "bool \<Rightarrow> rat \<Rightarrow> pyfloat" where
  \<comment> \<open>the binary64 float nearest to the number of sign \<open>neg\<close> and magnitude \<open>a\<close>: below
      \<open>2 ^ -1022\<close> the spacing stays \<open>2 ^ -1074\<close> (so that a tiny number becomes a zero),
      and a number that rounds to \<open>2 ^ 1024\<close> or more becomes an infinity\<close>
  "binary64 neg a =
     (if a = 0 then signed_float neg 0
      else (let e = binary_exponent a
            in if e > 1023 then (if neg then NegInf else PosInf)
               else (let r = nearest_multiple (pow2 (max e (- 1022) - 52)) a
                     in if e = 1023 then
                          (if r \<ge> pow2 1024 then (if neg then NegInf else PosInf)
                           else signed_float neg r)
                        else signed_float neg r)))"

definition float_of_int :: "int \<Rightarrow> pyfloat option" where
  \<comment> \<open>\<open>float(i)\<close>: the nearest float; None stands for the OverflowError of an integer
      beyond the range of binary64\<close>
  "float_of_int i =
     (case binary64 (i < 0) (of_int \<bar>i\<bar>) of
        PosInf \<Rightarrow> None
      | NegInf \<Rightarrow> None
      | f \<Rightarrow> Some f)"

subsection \<open>Numerals\<close>

fun digits_value :: "int \<Rightarrow> string \<Rightarrow> int option" where
  \<comment> \<open>the value of a run of decimal digits, read after the accumulator\<close>
  "digits_value acc [] = Some acc"
| "digits_value acc (c # cs) =
     (case digit_val c of None \<Rightarrow> None | Some d \<Rightarrow> digits_value (10 * acc + d) cs)"

fun drop_underscores :: "string \<Rightarrow> string option" where
  \<comment> \<open>a \<open>digitpart\<close>: digits with single underscores between them; the digits are returned\<close>
  "drop_underscores [] = None"
| "drop_underscores [c] = (if is_digit c then Some [c] else None)"
| "drop_underscores (c # d # cs) =
     (if \<not> is_digit c then None
      else if d = CHR ''_'' then map_option ((#) c) (drop_underscores cs)
      else map_option ((#) c) (drop_underscores (d # cs)))"

definition digitpart :: "string \<Rightarrow> int option" where
  "digitpart s = (case drop_underscores s of None \<Rightarrow> None | Some ds \<Rightarrow> digits_value 0 ds)"

definition split_sign :: "string \<Rightarrow> bool \<times> string" where
  \<comment> \<open>an optional sign; True for a minus\<close>
  "split_sign s = (case s of
      [] \<Rightarrow> (False, [])
    | c # cs \<Rightarrow> if c = CHR ''-'' then (True, cs) else if c = CHR ''+'' then (False, cs) else (False, s))"

definition int_of_text :: "string \<Rightarrow> int option" where
  \<comment> \<open>\<open>int(s)\<close> on a text; None stands for ValueError. A numeral of more than 4300
      digits is refused (the limit of the current versions of Python).\<close>
  "int_of_text s =
     (let (neg, body) = split_sign (strip_with numeral_space s)
      in case drop_underscores body of
           None \<Rightarrow> None
         | Some ds \<Rightarrow>
             if length ds > 4300 then None
             else (case digits_value 0 ds of
                     None \<Rightarrow> None
                   | Some n \<Rightarrow> Some (if neg then - n else n)))"

definition pow10 :: "int \<Rightarrow> rat" where
  "pow10 e = (if e \<ge> 0 then 10 ^ nat e else 1 / 10 ^ nat (- e))"

definition number_of_text :: "string \<Rightarrow> rat option" where
  \<comment> \<open>\<open>[digitpart] "." digitpart | digitpart ["."]\<close>\<close>
  "number_of_text s =
     (let ip = takeWhile (\<lambda>c. c \<noteq> CHR ''.'') s; rest = dropWhile (\<lambda>c. c \<noteq> CHR ''.'') s
      in case rest of
           [] \<Rightarrow> map_option of_int (digitpart ip)
         | _ # fp \<Rightarrow>
             if fp = [] then map_option of_int (digitpart ip)
             else (case (if ip = [] then Some 0 else digitpart ip, drop_underscores fp) of
                     (Some i, Some fd) \<Rightarrow>
                       (case digits_value 0 fd of
                          Some f \<Rightarrow> Some (of_int i + of_int f / 10 ^ length fd)
                        | None \<Rightarrow> None)
                   | _ \<Rightarrow> None))"

definition decimal_of_text :: "string \<Rightarrow> rat option" where
  \<comment> \<open>the number that an unsigned decimal numeral with an optional exponent denotes\<close>
  "decimal_of_text body =
     (let is_e = (\<lambda>c. c = CHR ''e'' \<or> c = CHR ''E'');
          mant = takeWhile (\<lambda>c. \<not> is_e c) body;
          rest = dropWhile (\<lambda>c. \<not> is_e c) body;
          ex = (case rest of
                  [] \<Rightarrow> Some 0
                | _ # es \<Rightarrow>
                    (let (eneg, eb) = split_sign es
                     in map_option (\<lambda>n. if eneg then - n else n) (digitpart eb)))
      in case (number_of_text mant, ex) of
           (Some m, Some e) \<Rightarrow> Some (m * pow10 e)
         | _ \<Rightarrow> None)"

definition float_of_numeral :: "(char \<Rightarrow> bool) \<Rightarrow> string \<Rightarrow> pyfloat option" where
  \<comment> \<open>\<open>float(s)\<close> on a text or a byte string, \<open>sp\<close> being the white space skipped around
      the numeral; None stands for ValueError. The words \<open>inf\<close>, \<open>infinity\<close> and \<open>nan\<close>
      are read in any case of letters; a numeral is rounded to binary64.\<close>
  "float_of_numeral sp s =
     (let (neg, body) = split_sign (strip_with sp s); word = py_lower body
      in if word = ''inf'' \<or> word = ''infinity'' then Some (if neg then NegInf else PosInf)
         else if word = ''nan'' then Some NaN
         else (case decimal_of_text body of
                 None \<Rightarrow> None
               | Some m \<Rightarrow> Some (binary64 neg m)))"

definition float_of_text :: "string \<Rightarrow> pyfloat option" where
  "float_of_text s = float_of_numeral numeral_space s"

definition py_float :: "pyval \<Rightarrow> pyfloat option" where
  \<comment> \<open>\<open>float(v)\<close>; None stands for TypeError, ValueError or OverflowError\<close>
  "py_float v = (case v of
      PInt i \<Rightarrow> float_of_int i
    | PFloat f \<Rightarrow> Some f
    | PStr s \<Rightarrow> float_of_text s
    | PBytes s \<Rightarrow> float_of_numeral ascii_space s
    | _ \<Rightarrow> None)"

subsection \<open>Numbers\<close>

definition float_key :: "pyfloat \<Rightarrow> (int \<times> rat) option" where
  \<comment> \<open>the place of a float in the order of the numbers; a NaN has none\<close>
  "float_key f = (case f of
      Finite q \<Rightarrow> Some (0, q)
    | NegZero \<Rightarrow> Some (0, 0)
    | PosInf \<Rightarrow> Some (1, 0)
    | NegInf \<Rightarrow> Some (- 1, 0)
    | NaN \<Rightarrow> None)"

definition is_number :: "pyval \<Rightarrow> bool" where
  \<comment> \<open>\<open>isinstance(v, (int, float))\<close>\<close>
  "is_number v = (case v of PInt _ \<Rightarrow> True | PFloat _ \<Rightarrow> True | _ \<Rightarrow> False)"

definition num_key :: "pyval \<Rightarrow> (int \<times> rat) option" where
  "num_key v = (case v of PInt i \<Rightarrow> Some (0, of_int i) | PFloat f \<Rightarrow> float_key f | _ \<Rightarrow> None)"

definition key_less :: "(int \<times> rat) option \<Rightarrow> (int \<times> rat) option \<Rightarrow> bool" where
  \<comment> \<open>\<open><\<close> on numbers: false when either side is a NaN\<close>
  "key_less a b = (case (a, b) of
      (Some (i, x), Some (j, y)) \<Rightarrow> i < j \<or> (i = j \<and> x < y)
    | _ \<Rightarrow> False)"

definition key_le :: "(int \<times> rat) option \<Rightarrow> (int \<times> rat) option \<Rightarrow> bool" where
  "key_le a b = (case (a, b) of
      (Some (i, x), Some (j, y)) \<Rightarrow> i < j \<or> (i = j \<and> x \<le> y)
    | _ \<Rightarrow> False)"

definition py_less :: "pyval \<Rightarrow> pyval \<Rightarrow> bool option" where
  \<comment> \<open>\<open>v < w\<close> where one side is a number: None stands for the TypeError of an order
      between a number and a value that is none\<close>
  "py_less v w = (if is_number v \<and> is_number w then Some (key_less (num_key v) (num_key w)) else None)"

definition py_le :: "pyval \<Rightarrow> pyval \<Rightarrow> bool option" where
  "py_le v w = (if is_number v \<and> is_number w then Some (key_le (num_key v) (num_key w)) else None)"

definition truthy :: "pyval \<Rightarrow> bool" where
  \<comment> \<open>the truth value of \<open>v\<close> in \<open>if v:\<close>\<close>
  "truthy v = (case v of
      PNone \<Rightarrow> False
    | PInt i \<Rightarrow> i \<noteq> 0
    | PFloat f \<Rightarrow> f \<noteq> Finite 0 \<and> f \<noteq> NegZero
    | PStr s \<Rightarrow> s \<noteq> []
    | PBytes s \<Rightarrow> s \<noteq> []
    | PMulti xs \<Rightarrow> xs \<noteq> []
    | PList xs \<Rightarrow> xs \<noteq> []
    | PTuple xs \<Rightarrow> xs \<noteq> [])"

definition py_len :: "pyval \<Rightarrow> nat option" where
  \<comment> \<open>\<open>len(v)\<close>; None stands for the TypeError of a value without a length\<close>
  "py_len v = (case v of
      PStr s \<Rightarrow> Some (length s)
    | PBytes s \<Rightarrow> Some (length s)
    | PMulti xs \<Rightarrow> Some (length xs)
    | PList xs \<Rightarrow> Some (length xs)
    | PTuple xs \<Rightarrow> Some (length xs)
    | _ \<Rightarrow> None)"

definition py_item :: "pyval \<Rightarrow> nat \<Rightarrow> pyval option" where
  \<comment> \<open>\<open>v[i]\<close>; None stands for TypeError or IndexError. A text gives a text of one
      character, a byte string gives an integer.\<close>
  "py_item v i = (case v of
      PStr s \<Rightarrow> (if i < length s then Some (PStr [s ! i]) else None)
    | PBytes s \<Rightarrow> (if i < length s then Some (PInt (of_char (s ! i))) else None)
    | PMulti xs \<Rightarrow> (if i < length xs then Some (xs ! i) else None)
    | PList xs \<Rightarrow> (if i < length xs then Some (xs ! i) else None)
    | PTuple xs \<Rightarrow> (if i < length xs then Some (xs ! i) else None)
    | _ \<Rightarrow> None)"

fun hashable :: "pyval \<Rightarrow> bool" where
  "hashable (PMulti xs) = False"
| "hashable (PList xs) = False"
| "hashable (PTuple xs) = list_all hashable xs"
| "hashable v = True"

definition py_eq :: "pyval \<Rightarrow> pyval \<Rightarrow> bool" where
  \<comment> \<open>\<open>==\<close> between two members of a set: numbers by their value (a NaN is equal to
      nothing), other values when they are the same\<close>
  "py_eq a b =
     (if is_number a \<and> is_number b then num_key a \<noteq> None \<and> num_key a = num_key b
      else a = b)"

definition float_eq :: "pyfloat \<Rightarrow> pyfloat \<Rightarrow> bool" where
  "float_eq a b \<longleftrightarrow> float_key a \<noteq> None \<and> float_key a = float_key b"

definition round2 :: "pyfloat \<Rightarrow> pyfloat" where
  \<comment> \<open>\<open>round(x, 2)\<close>: the float nearest to the decimal with two places nearest to \<open>x\<close>\<close>
  "round2 f = (case f of
      Finite q \<Rightarrow> binary64 (q < 0) (of_int (round_half_even (\<bar>q\<bar> * 100)) / 100)
    | _ \<Rightarrow> f)"

section \<open>The files of a series\<close>

text \<open>
  A \<open>dataset\<close> is what \<open>pydicom.dcmread\<close> returns for one file: its elements by tag.
  An element has its value and the text that \<open>str\<close> gives for the value (for a value
  that is a text, \<open>str\<close> gives the value itself). \<open>lookup\<close> is \<open>ds[tag].value\<close>
  for a tag that is in the dataset. \<open>py_getattr\<close> is \<open>getattr(ds, name, default)\<close>:
  the name is looked up in the dictionary of keywords, and a name that is no keyword
  (\<open>ReceivingCoilName\<close>) always gives the default.
\<close>

type_synonym tag = "int \<times> int"

record element =
  elem_value :: pyval
  elem_text :: string

type_synonym dataset = "(tag \<times> element) list"

text \<open>
  A file of the series is the dataset that \<open>cache.get_dicom\<close> returns for it, or
  \<open>None\<close> when the file cannot be read. The list \<open>dicom_files\<close> is the list of these;
  its paths are distinct.
\<close>

type_synonym dicom_file = "dataset option"

definition lookup :: "dataset \<Rightarrow> tag \<Rightarrow> pyval option" where
  "lookup ds t = map_option elem_value (map_of ds t)"

definition text_of :: "dataset \<Rightarrow> tag \<Rightarrow> string option" where
  \<comment> \<open>\<open>str(ds[tag].value)\<close> for a tag that is in the dataset\<close>
  "text_of ds t = map_option (\<lambda>e. case elem_value e of PStr s \<Rightarrow> s | _ \<Rightarrow> elem_text e) (map_of ds t)"

definition keyword_tag :: "string \<Rightarrow> tag option" where
  \<comment> \<open>the keywords of the DICOM dictionary that the program uses\<close>
  "keyword_tag = map_of [
      (''ImageType'', (0x0008, 0x0008)),
      (''SeriesDate'', (0x0008, 0x0021)),
      (''SeriesTime'', (0x0008, 0x0031)),
      (''StudyDescription'', (0x0008, 0x1030)),
      (''SeriesDescription'', (0x0008, 0x103E)),
      (''MRAcquisitionType'', (0x0018, 0x0023)),
      (''SliceThickness'', (0x0018, 0x0050)),
      (''RepetitionTime'', (0x0018, 0x0080)),
      (''EchoTime'', (0x0018, 0x0081)),
      (''InversionTime'', (0x0018, 0x0082)),
      (''NumberOfAverages'', (0x0018, 0x0083)),
      (''MagneticFieldStrength'', (0x0018, 0x0087)),
      (''SpacingBetweenSlices'', (0x0018, 0x0088)),
      (''PixelBandwidth'', (0x0018, 0x0095)),
      (''AcquisitionMatrix'', (0x0018, 0x1310)),
      (''FlipAngle'', (0x0018, 0x1314)),
      (''DiffusionBValue'', (0x0018, 0x9087)),
      (''SeriesNumber'', (0x0020, 0x0011)),
      (''InstanceNumber'', (0x0020, 0x0013)),
      (''ImagePositionPatient'', (0x0020, 0x0032)),
      (''Rows'', (0x0028, 0x0010)),
      (''Columns'', (0x0028, 0x0011)),
      (''PixelSpacing'', (0x0028, 0x0030))]"

definition py_getattr :: "dataset \<Rightarrow> string \<Rightarrow> pyval \<Rightarrow> pyval" where
  "py_getattr ds name dflt =
     (case keyword_tag name of
        None \<Rightarrow> dflt
      | Some t \<Rightarrow> (case lookup ds t of None \<Rightarrow> dflt | Some v \<Rightarrow> v))"

definition py_hasattr :: "dataset \<Rightarrow> string \<Rightarrow> bool" where
  "py_hasattr ds name = (case keyword_tag name of None \<Rightarrow> False | Some t \<Rightarrow> lookup ds t \<noteq> None)"

definition attr_text :: "dataset \<Rightarrow> string \<Rightarrow> string" where
  \<comment> \<open>\<open>str(getattr(ds, name, ''))\<close>\<close>
  "attr_text ds name =
     (case keyword_tag name of
        None \<Rightarrow> []
      | Some t \<Rightarrow> (case text_of ds t of None \<Rightarrow> [] | Some s \<Rightarrow> s))"

section \<open>Mosaic detection and correction\<close>

fun says_mosaic :: "pyval \<Rightarrow> bool" where
  \<comment> \<open>\<open>'MOSAIC' in str(item).upper()\<close>. The text of a number or of None has none of
      these letters; the text of a byte string or of a sequence shows the ASCII letters
      of its texts as they are.\<close>
  "says_mosaic (PStr s) = py_in ''MOSAIC'' (py_upper s)"
| "says_mosaic (PBytes s) = py_in ''MOSAIC'' (py_upper s)"
| "says_mosaic (PMulti xs) = list_ex says_mosaic xs"
| "says_mosaic (PList xs) = list_ex says_mosaic xs"
| "says_mosaic (PTuple xs) = list_ex says_mosaic xs"
| "says_mosaic v = False"

definition image_type_list :: "pyval \<Rightarrow> pyval list" where
  \<comment> \<open>\<open>list(image_type)\<close> for a value that can be iterated and is no text, else
      \<open>[image_type] if image_type else []\<close>; iterating a byte string gives integers\<close>
  "image_type_list image_type = (case image_type of
      PMulti xs \<Rightarrow> xs
    | PList xs \<Rightarrow> xs
    | PTuple xs \<Rightarrow> xs
    | PBytes s \<Rightarrow> map (\<lambda>c. PInt (of_char c)) s
    | _ \<Rightarrow> if truthy image_type then [image_type] else [])"

definition is_mosaic :: "dataset \<Rightarrow> bool" where
  \<comment> \<open>\<open>any('MOSAIC' in str(item).upper() for item in image_type_list)\<close>\<close>
  "is_mosaic ds = list_ex says_mosaic (image_type_list (py_getattr ds ''ImageType'' (PList [])))"

definition siemens_matrix :: "string \<Rightarrow> pyval \<times> pyval \<Rightarrow> pyval \<times> pyval" where
  \<comment> \<open>the fallback on the text of the tag (0051,100b): \<open>rows\<close> is assigned before
      \<open>int(parts[1])\<close> is evaluated, so a ValueError there leaves the new \<open>rows\<close> in
      place\<close>
  "siemens_matrix matrix_str dims =
     (if py_in ''p*'' matrix_str then
        (let parts = split_on (CHR ''*'') (filter (\<lambda>c. c \<noteq> CHR ''p'') matrix_str)
         in if length parts = 2 then
              (case int_of_text (parts ! 0) of
                 None \<Rightarrow> dims
               | Some r \<Rightarrow>
                   (case int_of_text (parts ! 1) of
                      None \<Rightarrow> (PInt r, snd dims)
                    | Some c \<Rightarrow> (PInt r, PInt c)))
            else dims)
      else dims)"

definition positive :: "pyval \<Rightarrow> bool option" where
  \<comment> \<open>\<open>v > 0\<close>\<close>
  "positive v = py_less (PInt 0) v"

definition matrix_dims :: "pyval \<Rightarrow> pyval \<times> pyval \<Rightarrow> (pyval \<times> pyval) option" where
  \<comment> \<open>the branch of an acquisition matrix of four or more elements; None when a
      comparison raises\<close>
  "matrix_dims acq_matrix dims =
     (case (py_item acq_matrix 0, py_item acq_matrix 1, py_item acq_matrix 2, py_item acq_matrix 3) of
        (Some a0, Some a1, Some a2, Some a3) \<Rightarrow>
          (case positive a0 of
             None \<Rightarrow> None
           | Some True \<Rightarrow>
               (case positive a3 of None \<Rightarrow> None | Some b \<Rightarrow> Some (a0, if b then a3 else a0))
           | Some False \<Rightarrow>
               (case positive a1 of
                  None \<Rightarrow> None
                | Some True \<Rightarrow>
                    (case positive a2 of None \<Rightarrow> None | Some b \<Rightarrow> Some (if b then a2 else a1, a1))
                | Some False \<Rightarrow> Some dims))
      | _ \<Rightarrow> None)"

definition mosaic_correct :: "dataset \<Rightarrow> (pyval \<times> pyval) option" where
  \<comment> \<open>\<open>(rows, columns)\<close> after the block \<open>if is_mosaic:\<close>; None when the block raises
      (\<open>len\<close> of a number, an order between a text and a number)\<close>
  "mosaic_correct ds =
     (let dims = (py_getattr ds ''Rows'' PNone, py_getattr ds ''Columns'' PNone);
          acq_matrix = py_getattr ds ''AcquisitionMatrix'' PNone;
          fallback = (case text_of ds (0x0051, 0x100b) of
                        None \<Rightarrow> dims
                      | Some matrix_str \<Rightarrow> siemens_matrix matrix_str dims)
      in if truthy acq_matrix then
           (case py_len acq_matrix of
              None \<Rightarrow> None
            | Some n \<Rightarrow> if n \<ge> 4 then matrix_dims acq_matrix dims else Some fallback)
         else Some fallback)"

section \<open>Dimension consensus over sampled files\<close>

definition dim_sample_size :: "nat \<Rightarrow> nat" where
  \<comment> \<open>\<open>max(10, min(100, len(dicom_files) // 5))\<close>\<close>
  "dim_sample_size n = max 10 (min 100 (n div 5))"

definition dim_sample_indices :: "nat \<Rightarrow> nat list" where
  \<comment> \<open>\<open>step = n / sample_size\<close> and \<open>int(i * step)\<close> are float operations\<close>
  "dim_sample_indices n =
     (let sample_size = dim_sample_size n
      in if sample_size \<ge> n then [0..<n]
         else (let step = fl53 (of_nat n / of_nat sample_size)
               in map (\<lambda>i. nat \<lfloor>fl53 (of_nat i * step)\<rfloor>) [0..<sample_size]))"

definition in_bounds :: "pyval \<Rightarrow> bool option" where
  \<comment> \<open>\<open>v >= 32 and v <= 8192\<close>; None when the order raises\<close>
  "in_bounds v =
     (case py_le (PInt 32) v of
        None \<Rightarrow> None
      | Some False \<Rightarrow> Some False
      | Some True \<Rightarrow> py_le v (PInt 8192))"

definition checked_dims :: "dataset \<Rightarrow> (pyval \<times> pyval) option option" where
  \<comment> \<open>the body of one round of the sampling loop on a dataset that was read: None when
      it raises, else the key that it adds to the tally, if any\<close>
  "checked_dims ds_check =
     (let rows_check = py_getattr ds_check ''Rows'' PNone;
          cols_check = py_getattr ds_check ''Columns'' PNone
      in if truthy rows_check \<and> truthy cols_check then
           (case in_bounds rows_check of
              None \<Rightarrow> None
            | Some False \<Rightarrow> Some None
            | Some True \<Rightarrow>
                (case in_bounds cols_check of
                   None \<Rightarrow> None
                 | Some False \<Rightarrow> Some None
                 | Some True \<Rightarrow> Some (Some (rows_check, cols_check))))
         else Some None)"

definition dim_of_file :: "dicom_file list \<Rightarrow> nat \<Rightarrow> (pyval \<times> pyval) option option" where
  \<comment> \<open>one round of the sampling loop. A file that cannot be read is skipped, and a
      dataset without elements is false in \<open>if ds_check:\<close>.\<close>
  "dim_of_file files idx =
     (if idx \<ge> length files then Some None
      else (case files ! idx of
              None \<Rightarrow> Some None
            | Some ds_check \<Rightarrow> if ds_check = [] then Some None else checked_dims ds_check))"

definition dim_eq :: "pyval \<times> pyval \<Rightarrow> pyval \<times> pyval \<Rightarrow> bool" where
  \<comment> \<open>equality of two keys of the tally\<close>
  "dim_eq k k' \<longleftrightarrow> py_eq (fst k) (fst k') \<and> py_eq (snd k) (snd k')"

fun dict_incr :: "pyval \<times> pyval \<Rightarrow> ((pyval \<times> pyval) \<times> nat) list \<Rightarrow> ((pyval \<times> pyval) \<times> nat) list" where
  \<comment> \<open>\<open>d[k] = d.get(k, 0) + 1\<close> on a dict, which keeps its keys in insertion order
      and the key that was inserted first\<close>
  "dict_incr k [] = [(k, 1)]"
| "dict_incr k ((k', c) # kvs) =
     (if dim_eq k' k then (k', Suc c) # kvs else (k', c) # dict_incr k kvs)"

fun dimension_counts :: "dicom_file list \<Rightarrow> nat list \<Rightarrow> ((pyval \<times> pyval) \<times> nat) list
    \<Rightarrow> ((pyval \<times> pyval) \<times> nat) list option" where
  \<comment> \<open>the sampling loop; None when a round raises\<close>
  "dimension_counts files [] counts = Some counts"
| "dimension_counts files (idx # rest) counts =
     (case dim_of_file files idx of
        None \<Rightarrow> None
      | Some None \<Rightarrow> dimension_counts files rest counts
      | Some (Some dim_key) \<Rightarrow> dimension_counts files rest (dict_incr dim_key counts))"

fun first_max :: "'k \<times> nat \<Rightarrow> ('k \<times> nat) list \<Rightarrow> 'k \<times> nat" where
  \<comment> \<open>\<open>max(items, key=lambda x: x[1])\<close>: the first item with the largest count\<close>
  "first_max best [] = best"
| "first_max best (x # xs) = first_max (if snd x > snd best then x else best) xs"

definition first_file_check :: "pyval \<Rightarrow> pyval \<Rightarrow> bool" where
  \<comment> \<open>\<open>if rows and columns: if rows < 32 or rows > 8192 or columns < 32 or
      columns > 8192\<close>, evaluated for a message only; False when it raises\<close>
  "first_file_check rows columns =
     (if truthy rows \<and> truthy columns then
        (case (py_less rows (PInt 32), py_less (PInt 8192) rows) of
           (Some a, Some b) \<Rightarrow>
             if a \<or> b then True
             else (case py_less columns (PInt 32) of
                     None \<Rightarrow> False
                   | Some c \<Rightarrow> True)
         | _ \<Rightarrow> False)
      else True)"

definition consensus_dims :: "dicom_file list \<Rightarrow> dataset \<Rightarrow> (pyval \<times> pyval) option" where
  \<comment> \<open>\<open>(rows, columns)\<close> after the block \<open>if not is_mosaic:\<close>; None when it raises\<close>
  "consensus_dims files ds =
     (let rows = py_getattr ds ''Rows'' PNone; columns = py_getattr ds ''Columns'' PNone
      in case dimension_counts files (dim_sample_indices (length files)) [] of
           None \<Rightarrow> None
         | Some [] \<Rightarrow> if first_file_check rows columns then Some (rows, columns) else None
         | Some (item # items) \<Rightarrow> Some (fst (first_max item items)))"

definition resolve_dims :: "dicom_file list \<Rightarrow> dataset \<Rightarrow> (pyval \<times> pyval) option" where
  "resolve_dims files ds = (if is_mosaic ds then mosaic_correct ds else consensus_dims files ds)"

section \<open>Acceleration factors\<close>

subsection \<open>Searching the embedded protocol text\<close>

definition match_field_at :: "string \<Rightarrow> string \<Rightarrow> string option" where
  \<comment> \<open>a match of the pattern \<open>name\s*=\s*[\t]+(\d+)\<close> at the start of \<open>s\<close>, with its
      group. The white space after \<open>=\<close> runs up to the first digit, so it must be
      non-empty and end in a tab; the group is the longest run of digits.\<close>
  "match_field_at name s =
     (if starts_with name s then
        (case dropWhile py_isspace (drop (length name) s) of
           [] \<Rightarrow> None
         | c # r \<Rightarrow>
             if c = CHR ''='' then
               (let w = takeWhile py_isspace r; ds = takeWhile is_digit (dropWhile py_isspace r)
                in if w \<noteq> [] \<and> last w = CHR 0x09 \<and> ds \<noteq> [] then Some ds else None)
             else None)
      else None)"

fun re_search :: "string \<Rightarrow> string \<Rightarrow> string option" where
  \<comment> \<open>\<open>re.search\<close>: the match at the leftmost position that has one\<close>
  "re_search name [] = match_field_at name []"
| "re_search name (c # cs) =
     (case match_field_at name (c # cs) of Some g \<Rightarrow> Some g | None \<Rightarrow> re_search name cs)"

subsection \<open>Multiband factor\<close>

definition at_least_1 :: "pyval \<Rightarrow> bool" where
  \<comment> \<open>\<open>isinstance(val, (int, float)) and val >= 1\<close>\<close>
  "at_least_1 val \<longleftrightarrow> is_number val \<and> key_le (Some (0, 1)) (num_key val)"

definition factor_of_digits :: "string \<Rightarrow> pyfloat option option" where
  \<comment> \<open>\<open>val = int(match.group(1))\<close> and \<open>float(val)\<close> when \<open>val >= 1\<close>: None when
      one of them raises, \<open>Some None\<close> when the value is below 1\<close>
  "factor_of_digits g =
     (case int_of_text g of
        None \<Rightarrow> None
      | Some val \<Rightarrow>
          if val \<ge> 1 then (case float_of_int val of None \<Rightarrow> None | Some f \<Rightarrow> Some (Some f))
          else Some None)"

definition mb_lMultiBandFactor :: "string \<Rightarrow> pyfloat option" where
  "mb_lMultiBandFactor csa_str =
     (case re_search ''sSliceAcceleration.lMultiBandFactor'' csa_str of
        None \<Rightarrow> None
      | Some g \<Rightarrow> (case factor_of_digits g of Some (Some f) \<Rightarrow> Some f | _ \<Rightarrow> None))"

definition mb_csa_header :: "dataset \<Rightarrow> pyfloat option" where
  \<comment> \<open>the block of the tag (0029,1020), whose exceptions are passed over: an
      exception at \<open>ucMultiSliceMode\<close> ends the block, so \<open>lMultiBandFactor\<close> is then not
      searched\<close>
  "mb_csa_header ds =
     (case lookup ds (0x0029, 0x1020) of
        Some (PBytes csa_str) \<Rightarrow>
          (case re_search ''sKSpace.ucMultiSliceMode'' csa_str of
             None \<Rightarrow> mb_lMultiBandFactor csa_str
           | Some g \<Rightarrow>
               (case factor_of_digits g of
                  None \<Rightarrow> None
                | Some (Some f) \<Rightarrow> Some f
                | Some None \<Rightarrow> mb_lMultiBandFactor csa_str))
      | _ \<Rightarrow> None)"

definition mb_out_of_plane :: "dataset \<Rightarrow> pyfloat option option" where
  \<comment> \<open>the tag (0018,9159): None when \<open>float(val)\<close> raises, which ends the whole search
      (the statement stands in the outer \<open>try\<close> only)\<close>
  "mb_out_of_plane ds =
     (case lookup ds (0x0018, 0x9159) of
        None \<Rightarrow> Some None
      | Some val \<Rightarrow>
          if at_least_1 val then (case py_float val of None \<Rightarrow> None | Some f \<Rightarrow> Some (Some f))
          else Some None)"

definition mb_pat_text :: "dataset \<Rightarrow> pyfloat option" where
  "mb_pat_text ds =
     (case text_of ds (0x0051, 0x1011) of
        None \<Rightarrow> None
      | Some pat_text \<Rightarrow>
          if starts_with ''s'' pat_text \<and> length pat_text > 1 then
            (case int_of_text (drop 1 pat_text) of
               None \<Rightarrow> None
             | Some val \<Rightarrow> if val \<ge> 1 then float_of_int val else None)
          else None)"

definition mb_first_of :: "pyval \<Rightarrow> pyval" where
  \<comment> \<open>\<open>mb_params[0]\<close> of a non-empty list or tuple, else \<open>mb_params\<close> itself\<close>
  "mb_first_of mb_params = (case mb_params of
      PList (x # xs) \<Rightarrow> x
    | PTuple (x # xs) \<Rightarrow> x
    | _ \<Rightarrow> mb_params)"

definition mb_ge_params :: "dataset \<Rightarrow> pyfloat option" where
  "mb_ge_params ds =
     (case lookup ds (0x0043, 0x10B6) of
        None \<Rightarrow> None
      | Some mb_params \<Rightarrow>
          if truthy mb_params then
            (let val = mb_first_of mb_params
             in if at_least_1 val then py_float val else None)
          else None)"

definition multiband_factor :: "dataset \<Rightarrow> pyfloat option" where
  \<comment> \<open>the value of \<open>multiband_factor\<close> after its block: each source is tried only while
      the factor is still None\<close>
  "multiband_factor ds =
     (case mb_csa_header ds of
        Some f \<Rightarrow> Some f
      | None \<Rightarrow>
          (case mb_out_of_plane ds of
             None \<Rightarrow> None
           | Some (Some f) \<Rightarrow> Some f
           | Some None \<Rightarrow>
               (case mb_pat_text ds of
                  Some f \<Rightarrow> Some f
                | None \<Rightarrow> mb_ge_params ds)))"

subsection \<open>In-plane acceleration factor\<close>

definition in_range_1_16 :: "pyval \<Rightarrow> pyfloat option" where
  \<comment> \<open>\<open>isinstance(val, (int, float)) and 1 <= val <= 16\<close>, then \<open>float(val)\<close>\<close>
  "in_range_1_16 val =
     (if is_number val \<and> key_le (Some (0, 1)) (num_key val) \<and> key_le (num_key val) (Some (0, 16))
      then py_float val else None)"

definition ip_pat_text :: "dataset \<Rightarrow> pyfloat option" where
  "ip_pat_text ds =
     (case text_of ds (0x0051, 0x1011) of
        None \<Rightarrow> None
      | Some pat_text \<Rightarrow>
          if starts_with ''p'' pat_text \<and> length pat_text > 1 then
            (case int_of_text (drop 1 pat_text) of
               None \<Rightarrow> None
             | Some val \<Rightarrow> if 1 \<le> val \<and> val \<le> 16 then float_of_int val else None)
          else None)"

definition ip_in_plane :: "dataset \<Rightarrow> pyfloat option" where
  "ip_in_plane ds = (case lookup ds (0x0018, 0x9158) of None \<Rightarrow> None | Some val \<Rightarrow> in_range_1_16 val)"

definition ip_siemens_private :: "dataset \<Rightarrow> pyfloat option" where
  \<comment> \<open>the block guarded by \<open>not is_mosaic\<close>: (0019,100A), and (0019,100B) in the
      \<open>elif\<close>, that is only when (0019,100A) is absent\<close>
  "ip_siemens_private ds =
     (if \<not> is_mosaic ds then
        (case lookup ds (0x0019, 0x100A) of
           Some val \<Rightarrow> in_range_1_16 val
         | None \<Rightarrow>
             (case lookup ds (0x0019, 0x100B) of
                Some val \<Rightarrow> in_range_1_16 val
              | None \<Rightarrow> None))
      else None)"

definition ip_ge :: "dataset \<Rightarrow> pyfloat option" where
  "ip_ge ds = (case lookup ds (0x0043, 0x1083) of None \<Rightarrow> None | Some val \<Rightarrow> in_range_1_16 val)"

definition ip_philips :: "dataset \<Rightarrow> pyfloat option" where
  "ip_philips ds = (case lookup ds (0x2001, 0x1008) of None \<Rightarrow> None | Some val \<Rightarrow> in_range_1_16 val)"

definition inplane_accel_factor :: "dataset \<Rightarrow> pyfloat option" where
  "inplane_accel_factor ds =
     (let ip = ip_pat_text ds;
          ip = (if ip = None then ip_in_plane ds else ip);
          ip = (if ip = None then ip_siemens_private ds else ip);
          ip = (if ip = None then ip_ge ds else ip);
          ip = (if ip = None then ip_philips ds else ip)
      in ip)"

section \<open>Slices per volume\<close>

definition set_add :: "('a \<Rightarrow> 'a \<Rightarrow> bool) \<Rightarrow> 'a \<Rightarrow> 'a list \<Rightarrow> 'a list" where
  \<comment> \<open>\<open>s.add(x)\<close> on a set kept as the list of its members, \<open>eq\<close> being the equality
      of the members\<close>
  "set_add eq x xs = (if list_ex (eq x) xs then xs else xs @ [x])"

fun files_add :: "pyfloat \<Rightarrow> nat \<Rightarrow> (pyfloat \<times> nat list) list \<Rightarrow> (pyfloat \<times> nat list) list" where
  \<comment> \<open>\<open>bvalue_to_files[b].add(dicom_files[idx])\<close>, with a new empty set for a new key;
      a file is named by its position in \<open>dicom_files\<close>\<close>
  "files_add b idx [] = [(b, [idx])]"
| "files_add b idx ((b', fs) # kvs) =
     (if float_eq b' b then (b', set_add (=) idx fs) # kvs else (b', fs) # files_add b idx kvs)"

definition bval_of :: "dataset \<Rightarrow> pyval" where
  \<comment> \<open>the value of \<open>bval\<close> after the three look-ups. \<open>DiffusionBValue\<close> is the keyword of
      the tag (0018,9087), so the second look-up finds nothing that the first has not.\<close>
  "bval_of ds =
     (if py_hasattr ds ''DiffusionBValue'' then py_getattr ds ''DiffusionBValue'' PNone
      else (case lookup ds (0x0018, 0x9087) of
              Some v \<Rightarrow> v
            | None \<Rightarrow> (case lookup ds (0x0019, 0x100c) of Some v \<Rightarrow> v | None \<Rightarrow> PNone)))"

record collected =
  slice_positions :: "pyfloat list"
  instance_numbers :: "pyval list"
  temporal_positions :: "pyval list"
  bvalue_to_files :: "(pyfloat \<times> nat list) list"

definition collected_empty :: collected where
  "collected_empty = \<lparr>slice_positions = [], instance_numbers = [], temporal_positions = [],
     bvalue_to_files = []\<rparr>"

definition slice_position :: "dataset \<Rightarrow> pyfloat option option" where
  \<comment> \<open>\<open>round(float(img_pos[2]), 2)\<close> when \<open>img_pos and len(img_pos) >= 3\<close>: None when it
      raises, \<open>Some None\<close> when the dataset gives no position\<close>
  "slice_position ds =
     (let img_pos = py_getattr ds ''ImagePositionPatient'' PNone
      in if truthy img_pos then
           (case py_len img_pos of
              None \<Rightarrow> None
            | Some n \<Rightarrow>
                if n \<ge> 3 then
                  (case py_item img_pos 2 of
                     None \<Rightarrow> None
                   | Some z \<Rightarrow> (case py_float z of None \<Rightarrow> None | Some f \<Rightarrow> Some (Some (round2 f))))
                else Some None)
         else Some None)"

definition add_position :: "dataset \<Rightarrow> collected \<Rightarrow> collected option" where
  "add_position ds st =
     (case slice_position ds of
        None \<Rightarrow> None
      | Some None \<Rightarrow> Some st
      | Some (Some z) \<Rightarrow> Some (st\<lparr>slice_positions := set_add float_eq z (slice_positions st)\<rparr>))"

definition add_instance :: "dataset \<Rightarrow> collected \<Rightarrow> collected option" where
  \<comment> \<open>None stands for the TypeError of adding an unhashable value to a set\<close>
  "add_instance ds st =
     (let instance_num = py_getattr ds ''InstanceNumber'' PNone
      in if instance_num \<noteq> PNone then
           (if hashable instance_num
            then Some (st\<lparr>instance_numbers := set_add py_eq instance_num (instance_numbers st)\<rparr>)
            else None)
         else Some st)"

definition add_temporal :: "dataset \<Rightarrow> collected \<Rightarrow> collected option" where
  "add_temporal ds st =
     (case lookup ds (0x0020, 0x9128) of
        None \<Rightarrow> Some st
      | Some temporal_pos \<Rightarrow>
          if temporal_pos \<noteq> PNone then
            (if hashable temporal_pos
             then Some (st\<lparr>temporal_positions := set_add py_eq temporal_pos (temporal_positions st)\<rparr>)
             else None)
          else Some st)"

definition add_bvalue :: "dataset \<Rightarrow> nat \<Rightarrow> collected \<Rightarrow> collected" where
  "add_bvalue ds idx st =
     (let bval = bval_of ds
      in if bval \<noteq> PNone then
           (case py_float bval of
              None \<Rightarrow> st
            | Some bval_float \<Rightarrow> st\<lparr>bvalue_to_files := files_add bval_float idx (bvalue_to_files st)\<rparr>)
         else st)"

definition collect_step :: "dicom_file list \<Rightarrow> nat \<Rightarrow> collected \<Rightarrow> collected \<times> bool" where
  \<comment> \<open>one round of the single pass; the flag is False when the round raised, and the
      state is then what the round had collected before\<close>
  "collect_step files idx st =
     (if idx \<ge> length files then (st, True)
      else (case files ! idx of
              None \<Rightarrow> (st, True)
            | Some ds_sample \<Rightarrow>
                (case add_position ds_sample st of
                   None \<Rightarrow> (st, False)
                 | Some st1 \<Rightarrow>
                     (case add_instance ds_sample st1 of
                        None \<Rightarrow> (st1, False)
                      | Some st2 \<Rightarrow>
                          (case add_temporal ds_sample st2 of
                             None \<Rightarrow> (st2, False)
                           | Some st3 \<Rightarrow> (add_bvalue ds_sample idx st3, True))))))"

fun run_loop :: "(nat \<Rightarrow> 's \<Rightarrow> 's \<times> bool) \<Rightarrow> nat list \<Rightarrow> 's \<Rightarrow> 's \<times> bool" where
  \<comment> \<open>a \<open>for\<close> loop inside a \<open>try\<close>: it stops at the first round that raises and keeps
      what was collected until then\<close>
  "run_loop step [] st = (st, True)"
| "run_loop step (idx # rest) st =
     (case step idx st of
        (st', True) \<Rightarrow> run_loop step rest st'
      | (st', False) \<Rightarrow> (st', False))"

definition even_indices :: "nat \<Rightarrow> nat \<Rightarrow> nat list" where
  \<comment> \<open>\<open>sample_size = min(limit, n)\<close> and
      \<open>[i * n // sample_size for i in range(sample_size)] if sample_size > 0 else [0]\<close>\<close>
  "even_indices limit n =
     (let sample_size = min limit n
      in if sample_size > 0 then map (\<lambda>i. i * n div sample_size) [0..<sample_size] else [0])"

definition mosaic_z_dim :: "dataset \<Rightarrow> pyval" where
  \<comment> \<open>\<open>z_dim\<close> before the single pass\<close>
  "mosaic_z_dim ds =
     (if is_mosaic ds then (case lookup ds (0x0019, 0x100A) of Some v \<Rightarrow> v | None \<Rightarrow> PNone)
      else PNone)"

definition collect_all :: "dicom_file list \<Rightarrow> collected \<times> bool" where
  "collect_all files = run_loop (collect_step files) (even_indices 500 (length files)) collected_empty"

definition base_z_dim :: "dicom_file list \<Rightarrow> dataset \<Rightarrow> pyval" where
  \<comment> \<open>\<open>z_dim\<close> after the single pass and its exception handler\<close>
  "base_z_dim files ds =
     (let z_dim = mosaic_z_dim ds; (st, ok) = collect_all files
      in if z_dim \<noteq> PNone then z_dim
         else if ok then
           (if length (slice_positions st) > 0 then PInt (int (length (slice_positions st)))
            else if length (instance_numbers st) > 0 \<and> length (instance_numbers st) \<le> length files
            then PInt (int (length (instance_numbers st)))
            else PInt (int (length files)))
         else PInt (int (length files)))"

section \<open>Number of volumes\<close>

record volumes =
  z_dim :: pyval
  num_volumes :: pyval
  num_b0s :: pyval
  is_diffusion_mri :: bool

definition float_floordiv :: "pyfloat \<Rightarrow> pyfloat \<Rightarrow> pyfloat" where
  \<comment> \<open>\<open>a // b\<close> on floats, for a divisor \<open>b \<ge> 1\<close>\<close>
  "float_floordiv a b =
     (case (float_key a, float_key b) of
        (Some (i, x), Some (j, y)) \<Rightarrow>
          if i \<noteq> 0 then NaN
          else if j \<noteq> 0 then (if x < 0 then Finite (- 1) else if a = NegZero then NegZero else Finite 0)
          else (let q = \<lfloor>x / y\<rfloor>
                in if q = 0 then (if a = NegZero then NegZero else Finite 0)
                   else binary64 (q < 0) (of_int \<bar>q\<bar>))
      | _ \<Rightarrow> NaN)"

definition py_floordiv :: "pyval \<Rightarrow> pyval \<Rightarrow> pyval option" where
  \<comment> \<open>\<open>m // d\<close> for a divisor \<open>d \<ge> 1\<close>; None stands for the TypeError of a value that
      is no number and for the OverflowError of an integer too large for a float\<close>
  "py_floordiv m d = (case (m, d) of
      (PInt a, PInt b) \<Rightarrow> Some (PInt (a div b))
    | _ \<Rightarrow>
        if is_number m \<and> is_number d then
          (case (py_float m, py_float d) of
             (Some a, Some b) \<Rightarrow> Some (PFloat (float_floordiv a b))
           | _ \<Rightarrow> None)
        else None)"

definition bval_values :: "string \<Rightarrow> pyfloat list option" where
  \<comment> \<open>\<open>[float(x) for x in bval_content.split() if x.strip()]\<close> for
      \<open>bval_content = f.read().strip()\<close>; None stands for the ValueError of a value that
      is not a number\<close>
  "bval_values content =
     those (map float_of_text (filter (\<lambda>x. py_strip x \<noteq> []) (split_ws (py_strip content))))"

definition is_zero :: "pyfloat \<Rightarrow> bool" where
  \<comment> \<open>\<open>b == 0\<close>\<close>
  "is_zero b \<longleftrightarrow> float_eq b (Finite 0)"

definition from_bval_file :: "string option \<Rightarrow> nat \<Rightarrow> bool \<Rightarrow> volumes \<Rightarrow> volumes" where
  \<comment> \<open>the block that reads the sibling \<open>.bval\<close> file: \<open>bval\<close> is the text of the first
      such file, None when there is none or it cannot be read; \<open>n\<close> is
      \<open>len(dicom_files)\<close>\<close>
  "from_bval_file bval n mosaic v =
     (case bval of
        None \<Rightarrow> v
      | Some bval_content \<Rightarrow>
          (case bval_values bval_content of
             None \<Rightarrow> v
           | Some vals \<Rightarrow>
               (let nv = length vals;
                    v = v\<lparr>num_volumes := PInt (int nv),
                          num_b0s := PInt (int (length (filter is_zero vals))),
                          is_diffusion_mri := True\<rparr>
                in if nv > 1 \<and> n > nv \<and> \<not> mosaic then
                     (let calculated_z_dim = n div nv
                      in if calculated_z_dim > 0 then v\<lparr>z_dim := PInt (int calculated_z_dim)\<rparr> else v)
                   else v)))"

definition bval_step :: "dicom_file list \<Rightarrow> nat \<Rightarrow> pyfloat list \<times> nat \<Rightarrow> pyfloat list \<times> nat" where
  \<comment> \<open>one file of a scan for b-values: the distinct values and the number of files with
      the value zero\<close>
  "bval_step files idx acc =
     (if idx \<ge> length files then acc
      else (case files ! idx of
              None \<Rightarrow> acc
            | Some ds_sample \<Rightarrow>
                (let bval = bval_of ds_sample
                 in if bval \<noteq> PNone then
                      (case py_float bval of
                         None \<Rightarrow> acc
                       | Some bval_float \<Rightarrow>
                           (set_add float_eq bval_float (fst acc),
                            if is_zero bval_float then Suc (snd acc) else snd acc))
                    else acc)))"

definition files_of_zero :: "(pyfloat \<times> nat list) list \<Rightarrow> nat list" where
  \<comment> \<open>\<open>bvalue_to_files.get(0.0, set())\<close>\<close>
  "files_of_zero d = (case filter (\<lambda>kv. is_zero (fst kv)) d of [] \<Rightarrow> [] | kv # _ \<Rightarrow> snd kv)"

definition sampled_bvalues :: "dicom_file list \<Rightarrow> collected \<Rightarrow> pyfloat list \<times> nat" where
  \<comment> \<open>\<open>unique_bvalues\<close> and \<open>b0_file_count\<close>: from the single pass when it found
      b-values, else from up to 100 files\<close>
  "sampled_bvalues files st =
     (if bvalue_to_files st \<noteq> [] then
        (map fst (bvalue_to_files st), length (files_of_zero (bvalue_to_files st)))
      else fold (bval_step files) (even_indices 100 (length files)) ([], 0))"

definition estimate_b0s :: "nat \<Rightarrow> nat \<Rightarrow> nat \<Rightarrow> int" where
  "estimate_b0s n unique_count b0_file_count =
     (if b0_file_count > 0 then
        (let estimated_files_per_volume = n div max 1 unique_count
         in int (max 1 (b0_file_count div max 1 estimated_files_per_volume)))
      else 0)"

definition is_functional :: "pyval \<Rightarrow> bool option" where
  \<comment> \<open>\<open>'fmri' in d.lower() or 'functional' in d.lower() or 'bold' in d.lower()\<close> for
      the description \<open>d\<close>; None when it raises, as for every value that is no text\<close>
  "is_functional series_description = (case series_description of
      PStr d \<Rightarrow> Some (py_in ''fmri'' (py_lower d) \<or> py_in ''functional'' (py_lower d)
                      \<or> py_in ''bold'' (py_lower d))
    | _ \<Rightarrow> None)"

definition fmri_step :: "dicom_file list \<Rightarrow> nat \<Rightarrow> collected \<Rightarrow> collected \<times> bool" where
  "fmri_step files idx st =
     (if idx \<ge> length files then (st, True)
      else (case files ! idx of
              None \<Rightarrow> (st, True)
            | Some ds_sample \<Rightarrow>
                (case add_instance ds_sample st of
                   None \<Rightarrow> (st, False)
                 | Some st1 \<Rightarrow>
                     (case add_temporal ds_sample st1 of
                        None \<Rightarrow> (st1, False)
                      | Some st2 \<Rightarrow> (st2, True)))))"

definition fmri_collected :: "dicom_file list \<Rightarrow> collected \<times> bool" where
  \<comment> \<open>the instance numbers and temporal positions of up to 200 files, collected anew
      (both sets are emptied first); the flag is False when the loop raised\<close>
  "fmri_collected files =
     run_loop (fmri_step files) (even_indices 200 (length files)) collected_empty"

fun py_max :: "pyval list \<Rightarrow> pyval option" where
  \<comment> \<open>\<open>max(s)\<close> of a non-empty set: None stands for the TypeError of an order between
      members that are not all numbers\<close>
  "py_max [] = None"
| "py_max [x] = Some x"
| "py_max (x # xs) =
     (if list_all is_number (x # xs)
      then Some (fold (\<lambda>y m. if key_less (num_key m) (num_key y) then y else m) xs x)
      else None)"

definition estimate_volumes :: "pyval list \<Rightarrow> nat \<Rightarrow> pyval \<Rightarrow> pyval option" where
  \<comment> \<open>the branch \<open>elif len(instance_numbers) > z_dim\<close>: the new \<open>num_volumes\<close>
      (\<open>PNone\<close> when it stays None); None when the branch raises\<close>
  "estimate_volumes inst n z =
     (case py_less z (PInt (int (length inst))) of
        None \<Rightarrow> None
      | Some False \<Rightarrow> Some PNone
      | Some True \<Rightarrow>
          (case (if inst \<noteq> [] then py_max inst else Some (PInt (int n))) of
             None \<Rightarrow> None
           | Some max_instance \<Rightarrow>
               (case py_floordiv max_instance (if py_less (PInt 1) z = Some True then z else PInt 1) of
                  None \<Rightarrow> None
                | Some estimated_volumes \<Rightarrow>
                    Some (if py_less (PInt 1) estimated_volumes = Some True
                          then estimated_volumes else PNone))))"

definition diffusion_volumes :: "dicom_file list \<Rightarrow> pyfloat list \<times> nat \<Rightarrow> volumes \<Rightarrow> volumes" where
  \<comment> \<open>the branch of a series with b-values: all files are read when there are at most
      500, else the sample stands\<close>
  "diffusion_volumes files sample v =
     (let n = length files;
          (u, b0) = (if n \<le> 500 then fold (bval_step files) [0..<n] ([], 0) else sample)
      in v\<lparr>num_volumes := PInt (int (length u)),
            num_b0s := PInt (estimate_b0s n (length u) b0),
            is_diffusion_mri := True\<rparr>)"

definition functional_volumes :: "dicom_file list \<Rightarrow> volumes \<Rightarrow> volumes" where
  \<comment> \<open>the branch of a series with a functional-imaging keyword\<close>
  "functional_volumes files v =
     (case fmri_collected files of
        (st, False) \<Rightarrow> v
      | (st, True) \<Rightarrow>
          if length (temporal_positions st) > 1
          then v\<lparr>num_volumes := PInt (int (length (temporal_positions st)))\<rparr>
          else (case estimate_volumes (instance_numbers st) (length files) (z_dim v) of
                  None \<Rightarrow> v
                | Some e \<Rightarrow> v\<lparr>num_volumes := e\<rparr>))"

definition analyse_volumes :: "dicom_file list \<Rightarrow> dataset \<Rightarrow> collected \<Rightarrow> volumes \<Rightarrow> volumes" where
  \<comment> \<open>the body of \<open>if num_volumes is None and len(dicom_files) > 1\<close>, whose exceptions
      are passed over; \<open>st\<close> is what the single pass collected\<close>
  "analyse_volumes files ds st v =
     (let sample = sampled_bvalues files st
      in if length (fst sample) > 0 then diffusion_volumes files sample v
         else (case is_functional (py_getattr ds ''SeriesDescription'' (PStr [])) of
                 None \<Rightarrow> v
               | Some False \<Rightarrow> v
               | Some True \<Rightarrow> functional_volumes files v))"

definition resolve_volumes :: "dicom_file list \<Rightarrow> dataset \<Rightarrow> string option \<Rightarrow> volumes" where
  \<comment> \<open>the variables \<open>z_dim\<close>, \<open>num_volumes\<close>, \<open>num_b0s\<close> and \<open>is_diffusion_mri\<close> when the
      output structure is built\<close>
  "resolve_volumes files ds bval =
     (let v = \<lparr>z_dim = base_z_dim files ds, num_volumes = PNone, num_b0s = PNone,
                is_diffusion_mri = False\<rparr>;
          v = from_bval_file bval (length files) (is_mosaic ds) v
      in if num_volumes v = PNone \<and> length files > 1
         then analyse_volumes files ds (fst (collect_all files)) v
         else v)"

definition multi_volume :: "volumes \<Rightarrow> bool" where
  \<comment> \<open>\<open>num_volumes is not None and num_volumes > 1\<close>\<close>
  "multi_volume v \<longleftrightarrow> num_volumes v \<noteq> PNone \<and> py_less (PInt 1) (num_volumes v) = Some True"

definition final_z_dim :: "nat \<Rightarrow> bool \<Rightarrow> volumes \<Rightarrow> pyval" where
  \<comment> \<open>the value under \<open>Z_Dim\<close> in the output structure\<close>
  "final_z_dim n mosaic v =
     (if multi_volume v \<and> \<not> mosaic then
        (case py_floordiv (PInt (int n)) (num_volumes v) of
           None \<Rightarrow> z_dim v
         | Some calculated_z_dim \<Rightarrow>
             if py_less (PInt 0) calculated_z_dim = Some True then calculated_z_dim else z_dim v)
      else z_dim v)"

section \<open>The record of a series\<close>

subsection \<open>Texts of values\<close>

text \<open>
  The program formats a few values into texts. The texts of an integer and of a float
  follow \<open>repr\<close>, those of a text and of a byte string inside a sequence as well. The
  numbers of a \<open>MultiValue\<close> are shown as plain numbers are (the reader shows them
  with the text they have in the file, which a value does not carry).
\<close>

definition digit_char :: "int \<Rightarrow> char" where
  "digit_char d = ''0123456789abcdef'' ! nat (d mod 16)"

function show_nat :: "int \<Rightarrow> string" where
  \<comment> \<open>the decimal digits of an integer that is not negative\<close>
  "show_nat n = (if n < 10 then [digit_char n] else show_nat (n div 10) @ [digit_char (n mod 10)])"
  by pat_completeness auto

termination
  by (relation "measure nat") auto

declare show_nat.simps [simp del]

definition show_int :: "int \<Rightarrow> string" where
  "show_int i = (if i < 0 then CHR ''-'' # show_nat (- i) else show_nat i)"

function ilog10 :: "int \<Rightarrow> int" where
  "ilog10 n = (if n < 10 then 0 else 1 + ilog10 (n div 10))"
  by pat_completeness auto

termination
  by (relation "measure nat") auto

declare ilog10.simps [simp del]

definition decimal_exponent :: "rat \<Rightarrow> int" where
  \<comment> \<open>for \<open>a > 0\<close> the exponent \<open>k\<close> with \<open>10 ^ k \<le> a < 10 ^ (k + 1)\<close>\<close>
  "decimal_exponent a =
     (if a \<ge> 1 then ilog10 \<lfloor>a\<rfloor>
      else (let c = \<lceil>1 / a\<rceil> in if c \<le> 1 then 0 else - (1 + ilog10 (c - 1))))"

definition digits_candidate :: "rat \<Rightarrow> int \<Rightarrow> nat \<Rightarrow> (int \<times> int) option" where
  \<comment> \<open>a decimal \<open>m * 10 ^ e\<close> of \<open>d\<close> digits that rounds to the float \<open>a\<close>, the nearer
      of the two that enclose \<open>a\<close> when both do\<close>
  "digits_candidate a k d =
     (let e = k - int d + 1; lo = \<lfloor>a / pow10 e\<rfloor>; hi = lo + 1;
          lo_ok = (binary64 False (of_int lo * pow10 e) = Finite a);
          hi_ok = (binary64 False (of_int hi * pow10 e) = Finite a)
      in if lo_ok \<and> hi_ok then
           (if a - of_int lo * pow10 e < of_int hi * pow10 e - a then Some (lo, e)
            else if a - of_int lo * pow10 e > of_int hi * pow10 e - a then Some (hi, e)
            else Some (if even lo then lo else hi, e))
         else if lo_ok then Some (lo, e)
         else if hi_ok then Some (hi, e)
         else None)"

definition shortest_digits :: "rat \<Rightarrow> int \<times> int" where
  \<comment> \<open>the decimal of fewest digits that rounds to the float \<open>a > 0\<close>: 17 digits always
      suffice\<close>
  "shortest_digits a =
     (case List.map_filter (digits_candidate a (decimal_exponent a)) [1..<18] of
        [] \<Rightarrow> (0, 0)
      | c # _ \<Rightarrow> c)"

function strip_zeros :: "int \<times> int \<Rightarrow> int \<times> int" where
  "strip_zeros (m, e) = (if m \<noteq> 0 \<and> m mod 10 = 0 then strip_zeros (m div 10, e + 1) else (m, e))"
  by pat_completeness auto

termination
  by (relation "measure (\<lambda>(m, e). nat \<bar>m\<bar>)") auto

declare strip_zeros.simps [simp del]

definition repr_finite :: "rat \<Rightarrow> string" where
  \<comment> \<open>\<open>repr\<close> of a finite float \<open>a > 0\<close>: the digits in positional notation when the
      decimal point stands within 16 places after and 4 places before the first digit,
      else with an exponent\<close>
  "repr_finite a =
     (let (m, e) = strip_zeros (shortest_digits a);
          ds = show_nat m;
          decpt = int (length ds) + e
      in if decpt > 16 \<or> decpt < - 3 then
           [hd ds] @ (if length ds > 1 then ''.'' @ tl ds else [])
           @ ''e'' @ (if decpt - 1 < 0 then ''-'' else ''+'')
           @ (if \<bar>decpt - 1\<bar> < 10 then ''0'' else []) @ show_nat \<bar>decpt - 1\<bar>
         else if decpt \<le> 0 then ''0.'' @ replicate (nat (- decpt)) (CHR ''0'') @ ds
         else if decpt \<ge> int (length ds) then ds @ replicate (nat (decpt - int (length ds))) (CHR ''0'') @ ''.0''
         else take (nat decpt) ds @ ''.'' @ drop (nat decpt) ds)"

definition float_repr :: "pyfloat \<Rightarrow> string" where
  "float_repr f = (case f of
      Finite q \<Rightarrow> (if q = 0 then ''0.0'' else if q < 0 then ''-'' @ repr_finite (- q) else repr_finite q)
    | NegZero \<Rightarrow> ''-0.0''
    | PosInf \<Rightarrow> ''inf''
    | NegInf \<Rightarrow> ''-inf''
    | NaN \<Rightarrow> ''nan'')"

definition hex_escape :: "char \<Rightarrow> string" where
  "hex_escape c = [CHR 0x5C, CHR ''x'', digit_char (of_char c div 16), digit_char (of_char c mod 16)]"

definition py_printable :: "char \<Rightarrow> bool" where
  \<comment> \<open>\<open>str.isprintable\<close> on a Latin-1 character\<close>
  "py_printable c \<longleftrightarrow>
     (let n = (of_char c :: nat) in (0x20 \<le> n \<and> n \<le> 0x7E) \<or> (0xA1 \<le> n \<and> n \<noteq> 0xAD))"

definition quote_of :: "string \<Rightarrow> char" where
  \<comment> \<open>the quote that \<open>repr\<close> puts around a text\<close>
  "quote_of s = (if CHR 0x27 \<in> set s \<and> CHR 0x22 \<notin> set s then CHR 0x22 else CHR 0x27)"

definition escape_char :: "bool \<Rightarrow> char \<Rightarrow> char \<Rightarrow> string" where
  \<comment> \<open>a character inside the \<open>repr\<close> of a text (\<open>bytes\<close> false) or of a byte string\<close>
  "escape_char bytes q c =
     (if c = q \<or> c = CHR 0x5C then [CHR 0x5C, c]
      else if c = CHR 0x09 then [CHR 0x5C, CHR ''t'']
      else if c = CHR 0x0A then [CHR 0x5C, CHR ''n'']
      else if c = CHR 0x0D then [CHR 0x5C, CHR ''r'']
      else if (if bytes then (of_char c :: nat) < 0x20 \<or> (of_char c :: nat) \<ge> 0x7F
               else \<not> py_printable c) then hex_escape c
      else [c])"

definition str_repr :: "string \<Rightarrow> string" where
  "str_repr s = (let q = quote_of s in [q] @ concat (map (escape_char False q) s) @ [q])"

definition bytes_repr :: "string \<Rightarrow> string" where
  "bytes_repr s = (let q = quote_of s in ''b'' @ [q] @ concat (map (escape_char True q) s) @ [q])"

fun join_with :: "string \<Rightarrow> string list \<Rightarrow> string" where
  "join_with sep [] = []"
| "join_with sep [x] = x"
| "join_with sep (x # y # xs) = x @ sep @ join_with sep (y # xs)"

fun py_repr :: "pyval \<Rightarrow> string" where
  \<comment> \<open>the text of a value inside an f-string; a \<open>MultiValue\<close> without values has the
      empty text\<close>
  "py_repr PNone = ''None''"
| "py_repr (PInt i) = show_int i"
| "py_repr (PFloat f) = float_repr f"
| "py_repr (PStr s) = str_repr s"
| "py_repr (PBytes s) = bytes_repr s"
| "py_repr (PMulti xs) = (if xs = [] then [] else ''['' @ join_with '', '' (map py_repr xs) @ '']'')"
| "py_repr (PList xs) = ''['' @ join_with '', '' (map py_repr xs) @ '']''"
| "py_repr (PTuple xs) =
     (case xs of
        [x] \<Rightarrow> ''('' @ py_repr x @ '',)''
      | _ \<Rightarrow> ''('' @ join_with '', '' (map py_repr xs) @ '')'')"

definition py_slice :: "pyval \<Rightarrow> nat \<Rightarrow> nat \<Rightarrow> string option" where
  \<comment> \<open>the text of \<open>v[i:j]\<close> inside an f-string; None stands for the TypeError of a value
      that cannot be sliced. A slice of a \<open>MultiValue\<close> is a list.\<close>
  "py_slice v i j = (case v of
      PStr s \<Rightarrow> Some (take (j - i) (drop i s))
    | PBytes s \<Rightarrow> Some (bytes_repr (take (j - i) (drop i s)))
    | PMulti xs \<Rightarrow> Some (py_repr (PList (take (j - i) (drop i xs))))
    | PList xs \<Rightarrow> Some (py_repr (PList (take (j - i) (drop i xs))))
    | PTuple xs \<Rightarrow> Some (py_repr (PTuple (take (j - i) (drop i xs))))
    | _ \<Rightarrow> None)"

subsection \<open>Formatted fields\<close>

definition fmt4_float :: "pyfloat \<Rightarrow> string" where
  \<comment> \<open>the format \<open>{x:.4f}\<close> of a float\<close>
  "fmt4_float f = (case f of
      Finite x \<Rightarrow>
        (let m = round_half_even (\<bar>x\<bar> * 10000); frac = show_nat (m mod 10000)
         in (if x < 0 then ''-'' else []) @ show_nat (m div 10000) @ ''.''
            @ replicate (4 - length frac) (CHR ''0'') @ frac)
    | NegZero \<Rightarrow> ''-0.0000''
    | PosInf \<Rightarrow> ''inf''
    | NegInf \<Rightarrow> ''-inf''
    | NaN \<Rightarrow> ''nan'')"

definition fmt4 :: "pyval \<Rightarrow> string option" where
  \<comment> \<open>the format \<open>{x:.4f}\<close>: an integer is made a float first; None stands for the
      exception of a value that is no number\<close>
  "fmt4 v = (case v of
      PInt i \<Rightarrow> map_option fmt4_float (float_of_int i)
    | PFloat f \<Rightarrow> Some (fmt4_float f)
    | _ \<Rightarrow> None)"

definition position_text :: "dataset \<Rightarrow> string option" where
  \<comment> \<open>\<open>position\<close>; None when \<open>len\<close> or the format raises\<close>
  "position_text ds =
     (let img_pos = py_getattr ds ''ImagePositionPatient'' PNone
      in if truthy img_pos then
           (case py_len img_pos of
              None \<Rightarrow> None
            | Some n \<Rightarrow>
                if n \<ge> 3 then
                  (case (Option.bind (py_item img_pos 0) fmt4, Option.bind (py_item img_pos 1) fmt4,
                         Option.bind (py_item img_pos 2) fmt4) of
                     (Some x, Some y, Some z) \<Rightarrow> Some (x @ '','' @ y @ '','' @ z)
                   | _ \<Rightarrow> None)
                else Some [])
         else Some [])"

definition format_datetime :: "pyval \<Rightarrow> pyval \<Rightarrow> string" where
  \<comment> \<open>an exception inside gives the empty text\<close>
  "format_datetime date_str time_str =
     (if truthy date_str \<and> truthy time_str then
        (case (py_slice date_str 0 4, py_slice date_str 4 6, py_slice date_str 6 8,
               py_slice time_str 0 2, py_slice time_str 2 4) of
           (Some y, Some m, Some d, Some hh, Some mm) \<Rightarrow>
             y @ ''-'' @ m @ ''-'' @ d @ ''-'' @ hh @ '':'' @ mm
         | _ \<Rightarrow> [])
      else [])"

definition voxels :: "dataset \<Rightarrow> (pyval \<times> pyval) option" where
  \<comment> \<open>\<open>x_voxel\<close> and \<open>y_voxel\<close>:
      \<open>pixel_spacing[i] if pixel_spacing and len(pixel_spacing) >= 2 else None\<close>; None
      when \<open>len\<close> raises\<close>
  "voxels ds =
     (let pixel_spacing = py_getattr ds ''PixelSpacing'' PNone
      in if truthy pixel_spacing then
           (case py_len pixel_spacing of
              None \<Rightarrow> None
            | Some n \<Rightarrow>
                if n \<ge> 2 then
                  (case (py_item pixel_spacing 0, py_item pixel_spacing 1) of
                     (Some x, Some y) \<Rightarrow> Some (x, y)
                   | _ \<Rightarrow> None)
                else Some (PNone, PNone))
         else Some (PNone, PNone))"

definition tag_or_none :: "dataset \<Rightarrow> tag \<Rightarrow> pyval" where
  \<comment> \<open>\<open>ds[t].value if t in ds else None\<close>\<close>
  "tag_or_none ds t = (case lookup ds t of None \<Rightarrow> PNone | Some v \<Rightarrow> v)"

definition opt_float :: "pyfloat option \<Rightarrow> pyval" where
  "opt_float x = (case x of None \<Rightarrow> PNone | Some f \<Rightarrow> PFloat f)"

definition opt_str :: "string option \<Rightarrow> pyval" where
  "opt_str x = (case x of None \<Rightarrow> PNone | Some s \<Rightarrow> PStr s)"

subsection \<open>The output structure and its cleaning\<close>

fun dict_set :: "'k \<Rightarrow> 'v \<Rightarrow> ('k \<times> 'v) list \<Rightarrow> ('k \<times> 'v) list" where
  \<comment> \<open>\<open>d[k] = v\<close> on a dict in insertion order\<close>
  "dict_set k v [] = [(k, v)]"
| "dict_set k v ((k', v') # kvs) = (if k' = k then (k', v) # kvs else (k', v') # dict_set k v kvs)"

definition cell :: "pyval \<Rightarrow> pyval" where
  \<comment> \<open>\<open>[x]\<close>\<close>
  "cell x = PList [x]"

definition output_literal :: "dataset \<Rightarrow> string \<Rightarrow> pyval \<times> pyval \<Rightarrow> pyval \<times> pyval \<Rightarrow> string
    \<Rightarrow> volumes \<Rightarrow> (string \<times> pyval) list" where
  \<comment> \<open>the dict literal assigned to \<open>output_data\<close>: every value is a list of one
      element\<close>
  "output_literal ds folder_name dims vox position v =
     [(''SeriesNumber'', cell (py_getattr ds ''SeriesNumber'' PNone)),
      (''FolderName'', cell (PStr folder_name)),
      (''SeriesDescription'', cell (py_getattr ds ''SeriesDescription'' (PStr []))),
      (''MRAcquisitionType'', cell (PStr (attr_text ds ''MRAcquisitionType''))),
      (''X_Dim'', cell (snd dims)),
      (''Y_Dim'', cell (fst dims)),
      (''Z_Dim'', cell (z_dim v)),
      (''X_Voxel'', cell (fst vox)),
      (''Y_Voxel'', cell (snd vox)),
      (''Z_Voxel'', cell (py_getattr ds ''SliceThickness'' PNone)),
      (''SliceGap'', cell (py_getattr ds ''SpacingBetweenSlices'' PNone)),
      (''InversionTime'', cell (py_getattr ds ''InversionTime'' PNone)),
      (''EchoTime'', cell (py_getattr ds ''EchoTime'' PNone)),
      (''RepetitionTime'', cell (py_getattr ds ''RepetitionTime'' PNone)),
      (''FlipAngle'', cell (py_getattr ds ''FlipAngle'' PNone)),
      (''Position'', cell (PStr position)),
      (''StudyDescription'', cell (PStr (attr_text ds ''StudyDescription''))),
      (''SeriesAcqTime'', cell (PStr (format_datetime (py_getattr ds ''SeriesDate'' (PStr []))
                                        (py_getattr ds ''SeriesTime'' (PStr []))))),
      (''DiffusionBValue'', cell (bval_of ds)),
      (''MultibandFactor'', cell (opt_float (multiband_factor ds))),
      (''InplaneAccelFactor'', cell (opt_float (inplane_accel_factor ds))),
      (''PhaseEncodingDirection'', cell (opt_str (text_of ds (0x0018, 0x1312)))),
      (''NumberOfAverages'', cell (py_getattr ds ''NumberOfAverages'' PNone)),
      (''Bandwidth'', cell (py_getattr ds ''PixelBandwidth'' PNone)),
      (''CoilName'', cell (py_getattr ds ''ReceivingCoilName'' PNone)),
      (''SliceOrientation'', cell (opt_str (text_of ds (0x0018, 0x5100)))),
      (''MagneticFieldStrength'', cell (py_getattr ds ''MagneticFieldStrength'' PNone)),
      (''PercentPhaseFOV'', cell (tag_or_none ds (0x0018, 0x0094))),
      (''PercentSampling'', cell (tag_or_none ds (0x0018, 0x0093)))]"

definition output_data :: "dicom_file list \<Rightarrow> dataset \<Rightarrow> string \<Rightarrow> string option
    \<Rightarrow> pyval \<times> pyval \<Rightarrow> pyval \<times> pyval \<Rightarrow> string \<Rightarrow> (string \<times> pyval) list" where
  \<comment> \<open>the dict \<open>output_data\<close> when the cleaning starts. A list has fewer files than
      \<open>float\<close> can hold, so \<open>len(dicom_files) // num_volumes\<close> does not raise.\<close>
  "output_data files ds folder_name bval dims vox position =
     (let v = resolve_volumes files ds bval;
          out = output_literal ds folder_name dims vox position v;
          out = (if multi_volume v then
                   dict_set ''Z_Dim'' (cell (final_z_dim (length files) (is_mosaic ds) v))
                     (dict_set ''NumberOfVolumes'' (cell (num_volumes v)) out)
                 else dict_set ''NumberOfVolumes'' (cell PNone) out)
      in if is_diffusion_mri v
         then dict_set ''NumberOfB0s'' (cell (num_b0s v)) out
         else dict_set ''NumberOfB0s'' (cell PNone) out)"

definition is_list_or_tuple :: "pyval \<Rightarrow> bool" where
  \<comment> \<open>\<open>isinstance(v, (list, tuple))\<close>: a \<open>MultiValue\<close> is neither\<close>
  "is_list_or_tuple v = (case v of PList _ \<Rightarrow> True | PTuple _ \<Rightarrow> True | _ \<Rightarrow> False)"

definition first_or_none :: "pyval \<Rightarrow> pyval" where
  \<comment> \<open>\<open>v[0] if len(v) > 0 else None\<close> for a list or a tuple\<close>
  "first_or_none v = (case v of
      PList (x # xs) \<Rightarrow> x
    | PTuple (x # xs) \<Rightarrow> x
    | _ \<Rightarrow> PNone)"

definition clean_value :: "pyval \<Rightarrow> pyval" where
  \<comment> \<open>the first cleaning loop, on one value of \<open>output_data\<close>\<close>
  "clean_value value_list = (case value_list of
      PList [] \<Rightarrow> PNone
    | PList (x # xs) \<Rightarrow> if is_list_or_tuple x then first_or_none x else x
    | _ \<Rightarrow> value_list)"

definition first_if_sequence :: "pyval \<Rightarrow> pyval" where
  \<comment> \<open>the second cleaning loop: a value that is still a list or a tuple gives way to its
      first element\<close>
  "first_if_sequence v = (if is_list_or_tuple v then first_or_none v else v)"

definition clean_output :: "(string \<times> pyval) list \<Rightarrow> (string \<times> pyval) list" where
  "clean_output out = map (\<lambda>(key, value_list). (key, first_if_sequence (clean_value value_list))) out"

subsection \<open>\<open>gather_info\<close>\<close>

definition gather_info :: "dicom_file list \<Rightarrow> string \<Rightarrow> string option \<Rightarrow> (string \<times> pyval) list option" where
  \<comment> \<open>the row that \<open>gather_info\<close> hands over for writing, None when it writes none
      (no file, a first file that cannot be read, or an exception that reaches the outer
      handler): \<open>files\<close> are the files of the series, \<open>bval\<close> is the text of the sibling
      \<open>.bval\<close> file\<close>
  "gather_info files folder_name bval =
     (case files of
        [] \<Rightarrow> None
      | first # _ \<Rightarrow>
          (case first of
             None \<Rightarrow> None
           | Some ds \<Rightarrow>
               (case resolve_dims files ds of
                  None \<Rightarrow> None
                | Some dims \<Rightarrow>
                    (case voxels ds of
                       None \<Rightarrow> None
                     | Some vox \<Rightarrow>
                         (case position_text ds of
                            None \<Rightarrow> None
                          | Some position \<Rightarrow>
                              Some (clean_output
                                (output_data files ds folder_name bval dims vox position)))))))"

definition field :: "(string \<times> pyval) list \<Rightarrow> string \<Rightarrow> pyval option" where
  \<comment> \<open>the value of a column in the row\<close>
  "field row key = map_of row key"

definition emitted :: "dicom_file list \<Rightarrow> string \<Rightarrow> string option \<Rightarrow> string \<Rightarrow> pyval option" where
  \<comment> \<open>the value of a column in the row that \<open>gather_info\<close> writes; None when no row
      is written\<close>
  "emitted files folder_name bval key =
     (case gather_info files folder_name bval of None \<Rightarrow> None | Some row \<Rightarrow> field row key)"

section \<open>Notions used in the statements\<close>

text \<open>
  The definitions of this section are not part of the program: they name what the
  statements below speak about without going through the program's loops, and they fix
  the example series.
\<close>

definition first_value :: "pyval \<Rightarrow> pyval" where
  \<comment> \<open>a value, or the first element of a value that is a list or a tuple (None when
      it has no element)\<close>
  "first_value v = (case v of
      PList [] \<Rightarrow> PNone
    | PList (x # xs) \<Rightarrow> x
    | PTuple [] \<Rightarrow> PNone
    | PTuple (x # xs) \<Rightarrow> x
    | _ \<Rightarrow> v)"

definition shown :: "pyval \<Rightarrow> pyval" where
  \<comment> \<open>what the row shows for a value: lists and tuples are opened twice\<close>
  "shown v = first_value (first_value v)"

definition a_tag :: tag where
  \<comment> \<open>the private element (0019,100A)\<close>
  "a_tag = (0x0019, 0x100A)"

definition b_tag :: tag where
  \<comment> \<open>the private element (0019,100B)\<close>
  "b_tag = (0x0019, 0x100B)"

definition without_tag :: "tag \<Rightarrow> dataset \<Rightarrow> dataset" where
  \<comment> \<open>the dataset without the element of a tag: two datasets with the same image
      under \<open>without_tag t\<close> differ at most in the presence or the value of that element\<close>
  "without_tag t ds = filter (\<lambda>te. fst te \<noteq> t) ds"

definition with_tag :: "tag \<Rightarrow> pyval \<Rightarrow> dataset \<Rightarrow> dataset" where
  \<comment> \<open>the dataset with a new value for a tag; the text is that of a value that is a
      text\<close>
  "with_tag t v ds = (t, \<lparr>elem_value = v, elem_text = []\<rparr>) # ds"

definition with_attr :: "string \<Rightarrow> pyval \<Rightarrow> dataset \<Rightarrow> dataset" where
  "with_attr name v ds = (case keyword_tag name of None \<Rightarrow> ds | Some t \<Rightarrow> with_tag t v ds)"

definition column_names :: "string list" where
  "column_names = [''SeriesNumber'', ''FolderName'', ''SeriesDescription'', ''MRAcquisitionType'',
     ''X_Dim'', ''Y_Dim'', ''Z_Dim'', ''X_Voxel'', ''Y_Voxel'', ''Z_Voxel'', ''SliceGap'',
     ''InversionTime'', ''EchoTime'', ''RepetitionTime'', ''FlipAngle'', ''Position'',
     ''StudyDescription'', ''SeriesAcqTime'', ''DiffusionBValue'', ''MultibandFactor'',
     ''InplaneAccelFactor'', ''PhaseEncodingDirection'', ''NumberOfAverages'', ''Bandwidth'',
     ''CoilName'', ''SliceOrientation'', ''MagneticFieldStrength'', ''PercentPhaseFOV'',
     ''PercentSampling'', ''NumberOfVolumes'', ''NumberOfB0s'']"

definition text_code_value :: "char \<Rightarrow> dataset \<Rightarrow> int option" where
  \<comment> \<open>the integer of a vendor text code (0051,1011) that is the letter \<open>c\<close> followed
      by an integer numeral\<close>
  "text_code_value c ds =
     (case text_of ds (0x0051, 0x1011) of
        Some (c' # rest) \<Rightarrow> if c' = c \<and> rest \<noteq> [] then int_of_text rest else None
      | _ \<Rightarrow> None)"

definition within_1_16 :: "pyval \<Rightarrow> bool" where
  \<comment> \<open>a number within \<open>[1, 16]\<close>\<close>
  "within_1_16 v = (case v of
      PInt i \<Rightarrow> 1 \<le> i \<and> i \<le> 16
    | PFloat (Finite q) \<Rightarrow> 1 \<le> q \<and> q \<le> 16
    | _ \<Rightarrow> False)"

definition as_float :: "pyval \<Rightarrow> pyfloat" where
  \<comment> \<open>a number as a float of the same value\<close>
  "as_float v = (case v of PInt i \<Rightarrow> Finite (of_int i) | PFloat f \<Rightarrow> f | _ \<Rightarrow> NaN)"

subsection \<open>Example series\<close>

definition mosaic_series :: dataset where
  \<comment> \<open>a file of a mosaic series: 800 x 800 tiled pixels\<close>
  "mosaic_series =
     with_attr ''ImageType'' (PMulti [PStr ''ORIGINAL'', PStr ''PRIMARY'', PStr ''M'', PStr ''ND'',
         PStr ''MOSAIC''])
       (with_attr ''Rows'' (PInt 800) (with_attr ''Columns'' (PInt 800) []))"

definition plain_series :: dataset where
  \<comment> \<open>a file of a series that is not mosaic\<close>
  "plain_series =
     with_attr ''ImageType'' (PMulti [PStr ''ORIGINAL'', PStr ''PRIMARY'', PStr ''M'', PStr ''ND''])
       (with_attr ''Rows'' (PInt 256) (with_attr ''Columns'' (PInt 256) []))"

definition mosaic_with_b_tag :: dataset where
  "mosaic_with_b_tag = with_tag b_tag (PInt 2) mosaic_series"

definition plain_with_a_and_b_tag :: dataset where
  "plain_with_a_and_b_tag = with_tag b_tag (PInt 2) (with_tag a_tag (PInt 20) plain_series)"

definition plain_with_b_tag :: dataset where
  "plain_with_b_tag = with_tag b_tag (PInt 2) plain_series"

section \<open>Properties\<close>

section \<open>Properties\<close>

subsection \<open>The columns of the row\<close>

lemma map_of_dict_set: "map_of (dict_set k v kvs) k' = (if k' = k then Some v else map_of kvs k')"
  by (induction kvs) auto

lemma map_of_clean_output:
  "map_of (clean_output out) key
     = map_option (\<lambda>x. first_if_sequence (clean_value x)) (map_of out key)"
  by (induction out) (auto simp: clean_output_def)

lemma clean_cell: "first_if_sequence (clean_value (cell x)) = shown x"
  by (auto simp: cell_def clean_value_def first_if_sequence_def shown_def first_value_def
      is_list_or_tuple_def first_or_none_def split: pyval.splits list.splits)

lemma gather_info_SomeD:
  assumes "gather_info files folder bval = Some row"
  obtains ds rest dims vox position where "files = Some ds # rest"
    and "resolve_dims files ds = Some dims" and "voxels ds = Some vox"
    and "position_text ds = Some position"
    and "row = clean_output (output_data files ds folder bval dims vox position)"
  using assms by (auto simp: gather_info_def split: list.splits option.splits)

lemma gather_info_first:
  "gather_info (Some ds # rest) folder bval =
     (case (resolve_dims (Some ds # rest) ds, voxels ds, position_text ds) of
        (Some dims, Some vox, Some position) \<Rightarrow>
          Some (clean_output (output_data (Some ds # rest) ds folder bval dims vox position))
      | _ \<Rightarrow> None)"
  by (simp add: gather_info_def split: option.splits)

lemma literal_Z_Dim:
  "map_of (output_literal ds folder dims vox position v) ''Z_Dim'' = Some (cell (z_dim v))"
  by (simp add: output_literal_def)

lemma literal_X_Dim:
  "map_of (output_literal ds folder dims vox position v) ''X_Dim'' = Some (cell (snd dims))"
  by (simp add: output_literal_def)

lemma literal_Y_Dim:
  "map_of (output_literal ds folder dims vox position v) ''Y_Dim'' = Some (cell (fst dims))"
  by (simp add: output_literal_def)

lemma literal_MultibandFactor:
  "map_of (output_literal ds folder dims vox position v) ''MultibandFactor''
     = Some (cell (opt_float (multiband_factor ds)))"
  by (simp add: output_literal_def)

lemma literal_InplaneAccelFactor:
  "map_of (output_literal ds folder dims vox position v) ''InplaneAccelFactor''
     = Some (cell (opt_float (inplane_accel_factor ds)))"
  by (simp add: output_literal_def)

lemma literal_SeriesNumber:
  "map_of (output_literal ds folder dims vox position v) ''SeriesNumber''
     = Some (cell (py_getattr ds ''SeriesNumber'' PNone))"
  by (simp add: output_literal_def)

lemma literal_NumberOfVolumes:
  "map_of (output_literal ds folder dims vox position v) ''NumberOfVolumes'' = None"
  by (simp add: output_literal_def)

lemma literal_NumberOfB0s:
  "map_of (output_literal ds folder dims vox position v) ''NumberOfB0s'' = None"
  by (simp add: output_literal_def)

lemma map_of_output_data:
  "map_of (output_data files ds folder bval dims vox position) key =
     (let v = resolve_volumes files ds bval
      in if key = ''NumberOfB0s'' then Some (cell (if is_diffusion_mri v then num_b0s v else PNone))
         else if key = ''NumberOfVolumes''
         then Some (cell (if multi_volume v then num_volumes v else PNone))
         else if key = ''Z_Dim'' \<and> multi_volume v
         then Some (cell (final_z_dim (length files) (is_mosaic ds) v))
         else map_of (output_literal ds folder dims vox position v) key)"
  by (simp add: output_data_def Let_def map_of_dict_set)

lemma final_z_dim_single: "\<not> multi_volume v \<Longrightarrow> final_z_dim n mosaic v = z_dim v"
  by (simp add: final_z_dim_def)

lemma final_z_dim_mosaic: "final_z_dim n True v = z_dim v"
  by (simp add: final_z_dim_def)

lemma row_field:
  assumes "row = clean_output (output_data files ds folder bval dims vox position)"
  shows "field row key = map_option (\<lambda>x. first_if_sequence (clean_value x))
           (map_of (output_data files ds folder bval dims vox position) key)"
  by (simp add: assms field_def map_of_clean_output)

lemma row_Z_Dim:
  assumes "row = clean_output (output_data files ds folder bval dims vox position)"
  shows "field row ''Z_Dim''
     = Some (shown (final_z_dim (length files) (is_mosaic ds) (resolve_volumes files ds bval)))"
  by (cases "multi_volume (resolve_volumes files ds bval)")
     (simp_all add: row_field[OF assms] map_of_output_data literal_Z_Dim clean_cell
        final_z_dim_single Let_def)

lemma row_X_Dim:
  assumes "row = clean_output (output_data files ds folder bval dims vox position)"
  shows "field row ''X_Dim'' = Some (shown (snd dims))"
  by (simp add: row_field[OF assms] map_of_output_data literal_X_Dim clean_cell Let_def)

lemma row_Y_Dim:
  assumes "row = clean_output (output_data files ds folder bval dims vox position)"
  shows "field row ''Y_Dim'' = Some (shown (fst dims))"
  by (simp add: row_field[OF assms] map_of_output_data literal_Y_Dim clean_cell Let_def)

lemma row_MultibandFactor:
  assumes "row = clean_output (output_data files ds folder bval dims vox position)"
  shows "field row ''MultibandFactor'' = Some (opt_float (multiband_factor ds))"
proof -
  have "shown (opt_float x) = opt_float x" for x
    by (cases x) (simp_all add: shown_def first_value_def opt_float_def)
  then show ?thesis
    by (simp add: row_field[OF assms] map_of_output_data literal_MultibandFactor clean_cell Let_def)
qed

lemma row_InplaneAccelFactor:
  assumes "row = clean_output (output_data files ds folder bval dims vox position)"
  shows "field row ''InplaneAccelFactor'' = Some (opt_float (inplane_accel_factor ds))"
proof -
  have "shown (opt_float x) = opt_float x" for x
    by (cases x) (simp_all add: shown_def first_value_def opt_float_def)
  then show ?thesis
    by (simp add: row_field[OF assms] map_of_output_data literal_InplaneAccelFactor clean_cell Let_def)
qed

lemma row_SeriesNumber:
  assumes "row = clean_output (output_data files ds folder bval dims vox position)"
  shows "field row ''SeriesNumber'' = Some (shown (py_getattr ds ''SeriesNumber'' PNone))"
  by (simp add: row_field[OF assms] map_of_output_data literal_SeriesNumber clean_cell Let_def)

lemma row_NumberOfVolumes:
  assumes "row = clean_output (output_data files ds folder bval dims vox position)"
  shows "field row ''NumberOfVolumes''
     = Some (shown (if multi_volume (resolve_volumes files ds bval)
                    then num_volumes (resolve_volumes files ds bval) else PNone))"
  by (simp add: row_field[OF assms] map_of_output_data clean_cell Let_def)

lemma row_NumberOfB0s:
  assumes "row = clean_output (output_data files ds folder bval dims vox position)"
  shows "field row ''NumberOfB0s''
     = Some (shown (if is_diffusion_mri (resolve_volumes files ds bval)
                    then num_b0s (resolve_volumes files ds bval) else PNone))"
  by (simp add: row_field[OF assms] map_of_output_data clean_cell Let_def)

subsection \<open>Reading a dataset without one of its elements\<close>

lemma map_of_without: "t' \<noteq> t \<Longrightarrow> map_of (without_tag t ds) t' = map_of ds t'"
  by (induction ds) (auto simp: without_tag_def)

lemma lookup_without: "t' \<noteq> t \<Longrightarrow> lookup (without_tag t ds) t' = lookup ds t'"
  by (simp add: lookup_def map_of_without)

lemma text_of_without: "t' \<noteq> t \<Longrightarrow> text_of (without_tag t ds) t' = text_of ds t'"
  by (simp add: text_of_def map_of_without)

lemma lookup_without_same: "lookup (without_tag t ds) t = None"
  by (induction ds) (auto simp: without_tag_def lookup_def)

lemma keyword_tag_private:
  "keyword_tag name \<noteq> Some (0x0019, 0x100A)" "keyword_tag name \<noteq> Some (0x0019, 0x100B)"
  by (auto simp: keyword_tag_def split: if_splits)

lemma py_getattr_without:
  "t = (0x0019, 0x100A) \<or> t = (0x0019, 0x100B)
     \<Longrightarrow> py_getattr (without_tag t ds) name dflt = py_getattr ds name dflt"
  using keyword_tag_private[of name]
  by (auto simp: py_getattr_def lookup_without split: option.splits)

lemma attr_text_without:
  "t = (0x0019, 0x100A) \<or> t = (0x0019, 0x100B)
     \<Longrightarrow> attr_text (without_tag t ds) name = attr_text ds name"
  using keyword_tag_private[of name]
  by (auto simp: attr_text_def text_of_without split: option.splits)

lemma is_mosaic_without:
  "t = (0x0019, 0x100A) \<or> t = (0x0019, 0x100B) \<Longrightarrow> is_mosaic (without_tag t ds) = is_mosaic ds"
  by (simp add: is_mosaic_def py_getattr_without)

lemma mosaic_correct_without:
  "t = (0x0019, 0x100A) \<or> t = (0x0019, 0x100B)
     \<Longrightarrow> mosaic_correct (without_tag t ds) = mosaic_correct ds"
  by (auto simp: mosaic_correct_def py_getattr_without text_of_without)

lemma voxels_without:
  "t = (0x0019, 0x100A) \<or> t = (0x0019, 0x100B) \<Longrightarrow> voxels (without_tag t ds) = voxels ds"
  by (simp add: voxels_def py_getattr_without)

lemma position_text_without:
  "t = (0x0019, 0x100A) \<or> t = (0x0019, 0x100B)
     \<Longrightarrow> position_text (without_tag t ds) = position_text ds"
  by (simp add: position_text_def py_getattr_without)

lemma ip_sources_without:
  assumes "t = (0x0019, 0x100A) \<or> t = (0x0019, 0x100B)"
  shows "ip_pat_text (without_tag t ds) = ip_pat_text ds"
    "ip_in_plane (without_tag t ds) = ip_in_plane ds"
    "ip_ge (without_tag t ds) = ip_ge ds"
    "ip_philips (without_tag t ds) = ip_philips ds"
  using assms
  by (auto simp: ip_pat_text_def ip_in_plane_def ip_ge_def ip_philips_def lookup_without
      text_of_without)

lemma ip_siemens_private_mosaic: "is_mosaic ds \<Longrightarrow> ip_siemens_private ds = None"
  by (simp add: ip_siemens_private_def)

lemma inplane_without_a:
  assumes "is_mosaic ds"
  shows "inplane_accel_factor (without_tag a_tag ds) = inplane_accel_factor ds"
proof -
  have a: "a_tag = (0x0019, 0x100A) \<or> a_tag = (0x0019, 0x100B)"
    by (simp add: a_tag_def)
  have "ip_siemens_private (without_tag a_tag ds) = ip_siemens_private ds"
    using assms by (simp add: ip_siemens_private_mosaic is_mosaic_without[OF a])
  then show ?thesis
    unfolding inplane_accel_factor_def by (simp only: ip_sources_without[OF a])
qed

lemma no_row_mosaic:
  assumes "is_mosaic ds"
  shows "gather_info (Some ds # rest) folder bval = None
     \<longleftrightarrow> mosaic_correct ds = None \<or> voxels ds = None \<or> position_text ds = None"
  using assms by (auto simp: gather_info_first resolve_dims_def split: option.splits)

lemma gather_info_row:
  assumes "gather_info (Some ds # rest) folder bval = Some row"
  shows "\<exists>dims vox position. resolve_dims (Some ds # rest) ds = Some dims
     \<and> voxels ds = Some vox \<and> position_text ds = Some position
     \<and> row = clean_output (output_data (Some ds # rest) ds folder bval dims vox position)"
  using assms by (auto simp: gather_info_first split: option.splits)

lemma emitted_InplaneAccelFactor:
  "emitted (Some ds # rest) folder bval ''InplaneAccelFactor'' =
     (if gather_info (Some ds # rest) folder bval = None then None
      else Some (opt_float (inplane_accel_factor ds)))"
proof (cases "gather_info (Some ds # rest) folder bval")
  case None
  then show ?thesis by (simp add: emitted_def)
next
  case (Some row)
  from gather_info_row[OF Some] obtain dims vox position where
    "row = clean_output (output_data (Some ds # rest) ds folder bval dims vox position)"
    by blast
  from row_InplaneAccelFactor[OF this] show ?thesis
    by (simp add: emitted_def Some)
qed

text \<open>
  Claim C5. On a mosaic series the element (0019,100A) is never read as the in-plane
  factor: two runs on series that agree in everything but the presence or the value of
  that element (in any file) write a row in the same cases, and the rows hold the same
  \<open>InplaneAccelFactor\<close>, when the representative file is mosaic, whatever the value of
  the element is.
\<close>

theorem inplane_ignores_a_tag_on_mosaic:
  assumes "map (map_option (without_tag a_tag)) files' = map (map_option (without_tag a_tag)) files"
    and "files = Some ds # rest"
    and "is_mosaic ds"
  shows "(gather_info files' folder bval = None \<longleftrightarrow> gather_info files folder bval = None)
       \<and> emitted files' folder bval ''InplaneAccelFactor''
           = emitted files folder bval ''InplaneAccelFactor''
       \<and> (gather_info files folder bval \<noteq> None \<longrightarrow>
            (\<exists>x. emitted files folder bval ''InplaneAccelFactor'' = Some x
                \<and> emitted files' folder bval ''InplaneAccelFactor'' = Some x))"
proof -
  have a: "a_tag = (0x0019, 0x100A) \<or> a_tag = (0x0019, 0x100B)"
    by (simp add: a_tag_def)
  from assms(1,2) obtain ds' rest' where f': "files' = Some ds' # rest'"
    and eq: "without_tag a_tag ds' = without_tag a_tag ds"
    by (cases files') (auto simp: map_option_case split: option.splits)
  have m': "is_mosaic ds'"
    using is_mosaic_without[OF a, of ds'] is_mosaic_without[OF a, of ds] eq assms(3) by simp
  have i: "inplane_accel_factor ds' = inplane_accel_factor ds"
    using inplane_without_a[OF m'] inplane_without_a[OF assms(3)] eq by simp
  have c: "mosaic_correct ds' = mosaic_correct ds"
    using mosaic_correct_without[OF a, of ds'] mosaic_correct_without[OF a, of ds] eq by simp
  have v: "voxels ds' = voxels ds"
    using voxels_without[OF a, of ds'] voxels_without[OF a, of ds] eq by simp
  have p: "position_text ds' = position_text ds"
    using position_text_without[OF a, of ds'] position_text_without[OF a, of ds] eq by simp
  have w: "gather_info files' folder bval = None \<longleftrightarrow> gather_info files folder bval = None"
    unfolding f' assms(2) no_row_mosaic[OF m'] no_row_mosaic[OF assms(3)] c v p ..
  show ?thesis
    using w by (auto simp: f' assms(2) emitted_InplaneAccelFactor i)
qed

lemma mosaic_series_row:
  "is_mosaic mosaic_series" "mosaic_correct mosaic_series \<noteq> None"
  "voxels mosaic_series \<noteq> None" "position_text mosaic_series \<noteq> None"
  by code_simp+

theorem inplane_ignores_a_tag_on_mosaic_witness:
  "is_mosaic (with_tag a_tag (PInt 4) mosaic_series)
   \<and> lookup (with_tag a_tag (PInt 4) mosaic_series) a_tag = Some (PInt 4)
   \<and> lookup mosaic_series a_tag = None
   \<and> (\<exists>x. emitted [Some (with_tag a_tag (PInt 4) mosaic_series)] ''series'' None
              ''InplaneAccelFactor'' = Some x
         \<and> emitted [Some mosaic_series] ''series'' None ''InplaneAccelFactor'' = Some x)"
proof -
  have m: "is_mosaic (with_tag a_tag (PInt 4) mosaic_series)"
    "mosaic_correct (with_tag a_tag (PInt 4) mosaic_series) \<noteq> None"
    "voxels (with_tag a_tag (PInt 4) mosaic_series) \<noteq> None"
    "position_text (with_tag a_tag (PInt 4) mosaic_series) \<noteq> None"
    "lookup (with_tag a_tag (PInt 4) mosaic_series) a_tag = Some (PInt 4)"
    "lookup mosaic_series a_tag = None"
    by code_simp+
  have e: "map (map_option (without_tag a_tag)) [Some mosaic_series]
             = map (map_option (without_tag a_tag)) [Some (with_tag a_tag (PInt 4) mosaic_series)]"
    by (simp add: without_tag_def with_tag_def)
  have w: "gather_info [Some (with_tag a_tag (PInt 4) mosaic_series)] ''series'' None \<noteq> None"
    unfolding no_row_mosaic[OF m(1)] using m(2,3,4) by blast
  from w inplane_ignores_a_tag_on_mosaic[OF e refl m(1), of "''series''" None]
  have "\<exists>x. emitted [Some (with_tag a_tag (PInt 4) mosaic_series)] ''series'' None
              ''InplaneAccelFactor'' = Some x
         \<and> emitted [Some mosaic_series] ''series'' None ''InplaneAccelFactor'' = Some x"
    by blast
  with m(1,5,6) show ?thesis by blast
qed

subsection \<open>The private element (0019,100B)\<close>

lemma checked_dims_empty: "checked_dims [] = Some None"
  by (simp add: checked_dims_def py_getattr_def lookup_def truthy_def split: option.splits)

lemma checked_dims_without:
  "t = (0x0019, 0x100A) \<or> t = (0x0019, 0x100B)
     \<Longrightarrow> checked_dims (without_tag t ds) = checked_dims ds"
  by (simp add: checked_dims_def py_getattr_without)

lemma dim_of_file_eq:
  "dim_of_file files idx =
     (if idx \<ge> length files then Some None
      else (case files ! idx of None \<Rightarrow> Some None | Some ds_check \<Rightarrow> checked_dims ds_check))"
  by (simp add: dim_of_file_def checked_dims_empty split: option.splits)

lemma dim_of_file_without:
  assumes "t = (0x0019, 0x100A) \<or> t = (0x0019, 0x100B)"
  shows "dim_of_file (map (map_option (without_tag t)) files) idx = dim_of_file files idx"
proof (cases "idx \<ge> length files")
  case True
  then show ?thesis by (simp add: dim_of_file_eq)
next
  case False
  then show ?thesis
    by (cases "files ! idx") (simp_all add: dim_of_file_eq checked_dims_without[OF assms])
qed

lemma dimension_counts_without:
  assumes "t = (0x0019, 0x100A) \<or> t = (0x0019, 0x100B)"
  shows "dimension_counts (map (map_option (without_tag t)) files) idxs counts
     = dimension_counts files idxs counts"
  by (induction idxs arbitrary: counts)
     (simp_all add: dim_of_file_without[OF assms] split: option.splits)

lemma resolve_dims_without:
  assumes "t = (0x0019, 0x100A) \<or> t = (0x0019, 0x100B)"
  shows "resolve_dims (map (map_option (without_tag t)) files) (without_tag t ds)
     = resolve_dims files ds"
  by (simp add: resolve_dims_def is_mosaic_without[OF assms] mosaic_correct_without[OF assms]
      consensus_dims_def dimension_counts_without[OF assms] py_getattr_without[OF assms])

lemma no_row_iff:
  "gather_info (Some ds # rest) folder bval = None
     \<longleftrightarrow> resolve_dims (Some ds # rest) ds = None \<or> voxels ds = None \<or> position_text ds = None"
  by (auto simp: gather_info_first split: option.splits)

lemma first_of_map_eq:
  assumes "map (map_option f) files' = map (map_option f) (Some ds # rest)"
  shows "\<exists>ds' rest'. files' = Some ds' # rest' \<and> f ds' = f ds"
proof (cases files')
  case Nil
  with assms show ?thesis by simp
next
  case (Cons x rest')
  with assms have "map_option f x = Some (f ds)" by simp
  then obtain ds' where "x = Some ds'" "f ds' = f ds" by (cases x) simp_all
  with Cons show ?thesis by simp
qed

lemma no_row_without:
  assumes "t = (0x0019, 0x100A) \<or> t = (0x0019, 0x100B)"
    and "map (map_option (without_tag t)) files' = map (map_option (without_tag t)) files"
    and "files = Some ds # rest"
  obtains ds' rest' where "files' = Some ds' # rest'"
    and "without_tag t ds' = without_tag t ds"
    and "gather_info files' folder bval = None \<longleftrightarrow> gather_info files folder bval = None"
proof -
  from assms(2) have "map (map_option (without_tag t)) files'
      = map (map_option (without_tag t)) (Some ds # rest)"
    unfolding assms(3) .
  from first_of_map_eq[OF this] obtain ds' rest' where f': "files' = Some ds' # rest'"
    and eq: "without_tag t ds' = without_tag t ds"
    by blast
  have "resolve_dims files' ds'
      = resolve_dims (map (map_option (without_tag t)) files') (without_tag t ds')"
    by (rule resolve_dims_without[OF assms(1), symmetric])
  also have "\<dots> = resolve_dims (map (map_option (without_tag t)) files) (without_tag t ds)"
    by (simp only: assms(2) eq)
  also have "\<dots> = resolve_dims files ds"
    by (rule resolve_dims_without[OF assms(1)])
  finally have r: "resolve_dims files' ds' = resolve_dims files ds" .
  have v: "voxels ds' = voxels ds"
    using voxels_without[OF assms(1), of ds'] voxels_without[OF assms(1), of ds]
    by (simp only: eq)
  have p: "position_text ds' = position_text ds"
    using position_text_without[OF assms(1), of ds'] position_text_without[OF assms(1), of ds]
    by (simp only: eq)
  have "gather_info files' folder bval = None
      \<longleftrightarrow> resolve_dims files' ds' = None \<or> voxels ds' = None \<or> position_text ds' = None"
    unfolding f' by (rule no_row_iff)
  moreover have "gather_info files folder bval = None
      \<longleftrightarrow> resolve_dims files ds = None \<or> voxels ds = None \<or> position_text ds = None"
    unfolding assms(3) by (rule no_row_iff)
  ultimately have w: "gather_info files' folder bval = None \<longleftrightarrow> gather_info files folder bval = None"
    by (simp only: r v p)
  show thesis by (rule that[OF f' eq w])
qed

lemma float_of_small_ints:
  "list_all (\<lambda>i. float_of_int i = Some (Finite (of_int i))) [1..16]"
  by code_simp

lemma float_of_small_int:
  assumes "1 \<le> i" and "i \<le> 16"
  shows "float_of_int i = Some (Finite (of_int i))"
  using float_of_small_ints assms by (simp add: list_all_iff)

lemma in_range_within:
  "in_range_1_16 v = (if within_1_16 v then Some (as_float v) else None)"
proof (cases v)
  case (PInt i)
  then show ?thesis
    by (auto simp: in_range_1_16_def within_1_16_def as_float_def is_number_def num_key_def
        key_le_def py_float_def float_of_small_int)
next
  case (PFloat f)
  then show ?thesis
    by (cases f)
       (auto simp: in_range_1_16_def within_1_16_def as_float_def is_number_def num_key_def
          key_le_def py_float_def float_key_def)
qed (simp_all add: in_range_1_16_def within_1_16_def is_number_def)

lemma ip_pat_text_eq:
  "ip_pat_text ds =
     (case text_code_value (CHR ''p'') ds of
        None \<Rightarrow> None
      | Some k \<Rightarrow> if 1 \<le> k \<and> k \<le> 16 then Some (Finite (of_int k)) else None)"
proof (cases "text_of ds (0x0051, 0x1011)")
  case None
  then show ?thesis by (simp add: ip_pat_text_def text_code_value_def)
next
  case (Some s)
  then show ?thesis
    by (cases s) (auto simp: ip_pat_text_def text_code_value_def float_of_small_int split: option.splits)
qed

lemma ip_in_plane_eq:
  "ip_in_plane ds =
     (case lookup ds (0x0018, 0x9158) of
        None \<Rightarrow> None
      | Some v \<Rightarrow> if within_1_16 v then Some (as_float v) else None)"
  by (simp add: ip_in_plane_def in_range_within split: option.splits)

text \<open>
  Claim C8, as the program has it. The element (0019,100B) is read only in the branch
  of a series that is not mosaic and has no element (0019,100A). There, when the text
  code and the element (0018,9158) yield no value, a number within \<open>[1, 16]\<close> in
  (0019,100B) is the in-plane factor of the row. On a mosaic series, and whenever
  (0019,100A) is present, the element is not read: two runs on series that differ in
  nothing but the presence or the value of (0019,100B) write a row in the same cases,
  with the same \<open>InplaneAccelFactor\<close>.
\<close>

theorem private_b_tag_when_a_tag_absent:
  assumes "files = Some ds # rest"
  shows "(gather_info files folder bval = Some row
            \<and> \<not> is_mosaic ds \<and> lookup ds a_tag = None
            \<and> \<not> (\<exists>k. text_code_value (CHR ''p'') ds = Some k \<and> 1 \<le> k \<and> k \<le> 16)
            \<and> \<not> (\<exists>v. lookup ds (0x0018, 0x9158) = Some v \<and> within_1_16 v)
            \<and> lookup ds b_tag = Some val \<and> within_1_16 val
          \<longrightarrow> field row ''InplaneAccelFactor'' = Some (PFloat (as_float val)))
       \<and> ((is_mosaic ds \<or> lookup ds a_tag \<noteq> None)
            \<and> map (map_option (without_tag b_tag)) files'
                = map (map_option (without_tag b_tag)) files
          \<longrightarrow> (gather_info files' folder bval = None \<longleftrightarrow> gather_info files folder bval = None)
            \<and> emitted files' folder bval ''InplaneAccelFactor''
                = emitted files folder bval ''InplaneAccelFactor'')"
proof (intro conjI impI)
  assume h: "gather_info files folder bval = Some row
            \<and> \<not> is_mosaic ds \<and> lookup ds a_tag = None
            \<and> \<not> (\<exists>k. text_code_value (CHR ''p'') ds = Some k \<and> 1 \<le> k \<and> k \<le> 16)
            \<and> \<not> (\<exists>v. lookup ds (0x0018, 0x9158) = Some v \<and> within_1_16 v)
            \<and> lookup ds b_tag = Some val \<and> within_1_16 val"
  have 1: "ip_pat_text ds = None"
    using h by (auto simp: ip_pat_text_eq split: option.splits)
  have 2: "ip_in_plane ds = None"
    using h by (auto simp: ip_in_plane_eq split: option.splits)
  have "ip_siemens_private ds = Some (as_float val)"
    using h by (simp add: ip_siemens_private_def in_range_within a_tag_def b_tag_def)
  then have "inplane_accel_factor ds = Some (as_float val)"
    by (simp add: inplane_accel_factor_def 1 2)
  then have f: "opt_float (inplane_accel_factor ds) = PFloat (as_float val)"
    by (simp add: opt_float_def)
  from h have "gather_info (Some ds # rest) folder bval = Some row"
    unfolding assms by (rule conjunct1)
  from gather_info_row[OF this] obtain dims vox position where
    "row = clean_output (output_data (Some ds # rest) ds folder bval dims vox position)"
    by (elim exE conjE)
  from row_InplaneAccelFactor[OF this]
  show "field row ''InplaneAccelFactor'' = Some (PFloat (as_float val))"
    by (simp only: f)
next
  assume h: "(is_mosaic ds \<or> lookup ds a_tag \<noteq> None)
            \<and> map (map_option (without_tag b_tag)) files'
                = map (map_option (without_tag b_tag)) files"
  have b: "b_tag = (0x0019, 0x100A) \<or> b_tag = (0x0019, 0x100B)"
    by (simp add: b_tag_def)
  obtain ds' rest' where f': "files' = Some ds' # rest'"
    and eq: "without_tag b_tag ds' = without_tag b_tag ds"
    and w: "gather_info files' folder bval = None \<longleftrightarrow> gather_info files folder bval = None"
    by (rule no_row_without[OF b conjunct2[OF h] assms, of folder bval])
  show "gather_info files' folder bval = None \<longleftrightarrow> gather_info files folder bval = None"
    by (rule w)
  have m: "is_mosaic ds' = is_mosaic ds"
    using is_mosaic_without[OF b, of ds'] is_mosaic_without[OF b, of ds] eq by simp
  have a: "lookup ds' a_tag = lookup ds a_tag"
    using lookup_without[of a_tag b_tag ds'] lookup_without[of a_tag b_tag ds] eq
    by (simp add: a_tag_def b_tag_def)
  have s: "ip_siemens_private ds' = ip_siemens_private ds"
    using h m a by (auto simp: ip_siemens_private_def a_tag_def split: option.splits)
  have o: "ip_pat_text ds' = ip_pat_text ds" "ip_in_plane ds' = ip_in_plane ds"
    "ip_ge ds' = ip_ge ds" "ip_philips ds' = ip_philips ds"
    using ip_sources_without[OF b, of ds'] ip_sources_without[OF b, of ds] eq by simp_all
  have "inplane_accel_factor ds' = inplane_accel_factor ds"
    unfolding inplane_accel_factor_def by (simp only: s o)
  then show "emitted files' folder bval ''InplaneAccelFactor''
                = emitted files folder bval ''InplaneAccelFactor''"
    using w by (simp add: f' assms emitted_InplaneAccelFactor)
qed

lemma example_rows:
  "resolve_dims [Some plain_with_b_tag] plain_with_b_tag \<noteq> None"
  "voxels plain_with_b_tag \<noteq> None" "position_text plain_with_b_tag \<noteq> None"
  "resolve_dims [Some mosaic_with_b_tag] mosaic_with_b_tag \<noteq> None"
  "voxels mosaic_with_b_tag \<noteq> None" "position_text mosaic_with_b_tag \<noteq> None"
  "resolve_dims [Some plain_with_a_and_b_tag] plain_with_a_and_b_tag \<noteq> None"
  "voxels plain_with_a_and_b_tag \<noteq> None" "position_text plain_with_a_and_b_tag \<noteq> None"
  by code_simp+

lemma example_rows_written:
  "gather_info [Some plain_with_b_tag] folder bval \<noteq> None"
  "gather_info [Some mosaic_with_b_tag] folder bval \<noteq> None"
  "gather_info [Some plain_with_a_and_b_tag] folder bval \<noteq> None"
  unfolding no_row_iff using example_rows by simp_all

theorem private_b_tag_when_a_tag_absent_witness:
  "\<not> is_mosaic plain_with_b_tag \<and> lookup plain_with_b_tag a_tag = None
   \<and> lookup plain_with_b_tag b_tag = Some (PInt 2)
   \<and> (\<exists>row. gather_info [Some plain_with_b_tag] ''series'' None = Some row
          \<and> field row ''InplaneAccelFactor'' = Some (PFloat (Finite 2)))
   \<and> is_mosaic mosaic_with_b_tag
   \<and> gather_info [Some mosaic_with_b_tag] ''series'' None \<noteq> None
   \<and> emitted [Some mosaic_series] ''series'' None ''InplaneAccelFactor''
       = emitted [Some mosaic_with_b_tag] ''series'' None ''InplaneAccelFactor''"
proof -
  obtain row where row: "gather_info [Some plain_with_b_tag] ''series'' None = Some row"
    using example_rows_written(1)[of "''series''" None] by (cases "gather_info [Some plain_with_b_tag] ''series'' None") simp_all
  have h: "\<not> is_mosaic plain_with_b_tag" "lookup plain_with_b_tag a_tag = None"
    "text_code_value (CHR ''p'') plain_with_b_tag = None"
    "lookup plain_with_b_tag (0x0018, 0x9158) = None"
    "lookup plain_with_b_tag b_tag = Some (PInt 2)" "within_1_16 (PInt 2)"
    "as_float (PInt 2) = Finite 2"
    by code_simp+
  have m: "is_mosaic mosaic_with_b_tag"
    by code_simp
  have e: "map (map_option (without_tag b_tag)) [Some mosaic_series]
      = map (map_option (without_tag b_tag)) [Some mosaic_with_b_tag]"
    by (simp add: without_tag_def with_tag_def mosaic_with_b_tag_def)
  have "field row ''InplaneAccelFactor'' = Some (PFloat (Finite 2))"
    using private_b_tag_when_a_tag_absent[of "[Some plain_with_b_tag]" plain_with_b_tag "[]"
        "''series''" None row "PInt 2"] row h
    by simp
  moreover have "emitted [Some mosaic_series] ''series'' None ''InplaneAccelFactor''
       = emitted [Some mosaic_with_b_tag] ''series'' None ''InplaneAccelFactor''"
    using private_b_tag_when_a_tag_absent[of "[Some mosaic_with_b_tag]" mosaic_with_b_tag "[]"
        "''series''" None _ _ "[Some mosaic_series]"] m e
    by simp
  ultimately show ?thesis
    using row h(1,2,5) m example_rows_written(2)[of "''series''" None] by simp
qed

text \<open>
  The claim as it was stated fails on both of the cases that it names. On a mosaic
  series where the text code, (0018,9158) and (0019,100A) yield nothing and
  (0019,100B) holds 2, and on a series that is not mosaic where (0019,100A) holds 20,
  outside \<open>[1, 16]\<close>, and (0019,100B) holds 2, a row is written and its
  \<open>InplaneAccelFactor\<close> is empty.
\<close>

theorem private_b_tag_counterexample:
  "is_mosaic mosaic_with_b_tag
   \<and> lookup mosaic_with_b_tag b_tag = Some (PInt 2)
   \<and> ip_pat_text mosaic_with_b_tag = None \<and> ip_in_plane mosaic_with_b_tag = None
   \<and> emitted [Some mosaic_with_b_tag] ''series'' None ''InplaneAccelFactor'' = Some PNone
   \<and> \<not> is_mosaic plain_with_a_and_b_tag
   \<and> lookup plain_with_a_and_b_tag a_tag = Some (PInt 20)
   \<and> lookup plain_with_a_and_b_tag b_tag = Some (PInt 2)
   \<and> ip_pat_text plain_with_a_and_b_tag = None \<and> ip_in_plane plain_with_a_and_b_tag = None
   \<and> emitted [Some plain_with_a_and_b_tag] ''series'' None ''InplaneAccelFactor'' = Some PNone"
proof -
  have 1: "is_mosaic mosaic_with_b_tag" "lookup mosaic_with_b_tag b_tag = Some (PInt 2)"
    "ip_pat_text mosaic_with_b_tag = None" "ip_in_plane mosaic_with_b_tag = None"
    "opt_float (inplane_accel_factor mosaic_with_b_tag) = PNone"
    by code_simp+
  have 2: "\<not> is_mosaic plain_with_a_and_b_tag"
    "lookup plain_with_a_and_b_tag a_tag = Some (PInt 20)"
    "lookup plain_with_a_and_b_tag b_tag = Some (PInt 2)"
    "ip_pat_text plain_with_a_and_b_tag = None" "ip_in_plane plain_with_a_and_b_tag = None"
    "opt_float (inplane_accel_factor plain_with_a_and_b_tag) = PNone"
    by code_simp+
  show ?thesis
    by (simp add: 1 2 emitted_InplaneAccelFactor example_rows_written)
qed

end
